theory Spec2Isabelle
  imports Complex_Main
begin

section \<open>Values exchanged with the generation service\<close>

text \<open>
  The orchestrator (\<^verbatim>\<open>src/middleware/suno_client.py\<close>) talks JSON over HTTP. A parsed
  body is a Python object built from \<^verbatim>\<open>None\<close>, booleans, integers, floats, strings,
  lists and dictionaries. A float is kept by its exact value; the parser also accepts the
  two infinities and NaN.
\<close>

datatype pyfloat = Finite rat | PosInf | NegInf | NaN

datatype json =
    JNull
  | JBool bool
  | JInt int
  | JFloat pyfloat
  | JStr string
  | JList "json list"
  | JObj "(string \<times> json) list"

type_synonym dict = "(string \<times> json) list"

text \<open>\<^verbatim>\<open>d.get(k)\<close>: the value stored under the key, \<^verbatim>\<open>None\<close> when the key is absent.\<close>

definition dget :: "dict \<Rightarrow> string \<Rightarrow> json" where
  "dget d k = (case map_of d k of None \<Rightarrow> JNull | Some v \<Rightarrow> v)"

text \<open>\<^verbatim>\<open>k in d\<close>.\<close>

definition has_key :: "dict \<Rightarrow> string \<Rightarrow> bool" where
  "has_key d k = (map_of d k \<noteq> None)"

text \<open>Python truthiness, as used by \<^verbatim>\<open>if x\<close>, \<^verbatim>\<open>not x\<close> and \<^verbatim>\<open>a and b\<close>.\<close>

fun truthy :: "json \<Rightarrow> bool" where
  "truthy JNull = False"
| "truthy (JBool b) = b"
| "truthy (JInt i) = (i \<noteq> 0)"
| "truthy (JFloat f) = (f \<noteq> Finite 0)"
| "truthy (JStr s) = (s \<noteq> [])"
| "truthy (JList xs) = (xs \<noteq> [])"
| "truthy (JObj d) = (d \<noteq> [])"

text \<open>\<^verbatim>\<open>v == n\<close> for an integer literal \<^verbatim>\<open>n\<close>: numbers compare by value, \<^verbatim>\<open>True\<close> is 1 and
  \<^verbatim>\<open>False\<close> is 0, every other object is unequal.\<close>

fun py_eq_int :: "json \<Rightarrow> int \<Rightarrow> bool" where
  "py_eq_int (JInt i) n = (i = n)"
| "py_eq_int (JFloat (Finite r)) n = (r = of_int n)"
| "py_eq_int (JBool b) n = ((if b then 1 else 0) = n)"
| "py_eq_int _ n = False"

section \<open>Exceptions\<close>

text \<open>
  The module has one exception class of its own, \<^verbatim>\<open>SunoClientError\<close>, raised with a
  formatted message. A message is kept as the template that produced it together with the
  values interpolated into it, in the order of the source:
  \<^item> \<open>NoApiKey\<close>: line 40, no interpolation;
  \<^item> \<open>CreateFailed data\<close>: line 94;
  \<^item> \<open>PollTimedOut max_wait task_id\<close>: line 119;
  \<^item> \<open>StatusFailed status_code text\<close>: line 139;
  \<^item> \<open>NotJson text\<close>: line 144;
  \<^item> \<open>TaskFailed clip\<close>: line 157;
  \<^item> \<open>NoAudioUrl clip\<close>: line 174.
\<close>

datatype suno_msg =
    NoApiKey
  | CreateFailed json
  | PollTimedOut int json
  | StatusFailed int string
  | NotJson string
  | TaskFailed json
  | NoAudioUrl json

text \<open>The HTTP library raises exceptions of the classes under
  \<^verbatim>\<open>requests.exceptions.RequestException\<close>, and no others.\<close>

datatype request_exception =
    ConnectionError
  | Timeout
  | HTTPError int
  | JSONDecodeError
  | TooManyRedirects
  | InvalidURL

datatype exn =
    SunoClientError suno_msg
  | RequestException request_exception
  | AttributeError
  | TypeError
  | KeyError
  | IndexError
  | ValueError
  | OSError

section \<open>The world outside the module\<close>

record response =
  status_code :: int
  resp_text :: string
  content :: string
  json_body :: "json option"

text \<open>
  \<open>resp_text\<close> is \<^verbatim>\<open>resp.text\<close>, \<open>content\<close> is \<^verbatim>\<open>resp.content\<close>, and \<open>json_body\<close> is
  what \<^verbatim>\<open>resp.json()\<close> returns; \<open>None\<close> stands for the call raising because the body
  does not parse.

  \<^verbatim>\<open>Response.raise_for_status()\<close> of the HTTP library raises \<^verbatim>\<open>HTTPError\<close> for a
  status from 400 to 599 and returns for every other status.
\<close>

definition raise_for_status :: "response \<Rightarrow> exn + unit" where
  "raise_for_status resp =
     (if 400 \<le> status_code resp \<and> status_code resp < 600
      then Inl (RequestException (HTTPError (status_code resp)))
      else Inr ())"

record http_request =
  url :: string
  headers :: "(string \<times> string) list"
  payload :: dict

text \<open>A file under the output directory: \<^verbatim>\<open>OUTPUT_DIR / name\<close>.\<close>

datatype path = OUTPUT_DIR string

text \<open>
  Everything the module reads from outside: the configured key and base URL (module
  globals), the service's answer to a submission, its answer to the \<open>n\<close>-th status query
  for a task together with the time that query takes, its answer to a plain download, and
  whether a file can be written. An answer is a response, or the exception the HTTP
  library raises instead.
\<close>

record env =
  API_KEY :: string
  BASE_URL :: string
  http_post :: "http_request \<Rightarrow> request_exception + response"
  status_query :: "json \<Rightarrow> nat \<Rightarrow> rat \<times> (request_exception + response)"
  http_get :: "json \<Rightarrow> request_exception + response"
  disk_ok :: "path \<Rightarrow> bool"

text \<open>
  What a call does, in order: \<open>Posted\<close> is the request of line 88, \<open>Checked\<close> the
  deadline test of line 118 with the elapsed seconds it compared, \<open>Queried\<close> the status
  query of line 125 for a task with the number of the attempt, \<open>Slept\<close> a
  \<^verbatim>\<open>time.sleep\<close>, \<open>Fetched\<close> a download of lines 179 or 196 and \<open>Wrote\<close> a file
  written with its content. Printing is left out.
\<close>

datatype event =
    Posted http_request
  | Checked int
  | Queried json nat
  | Slept int
  | Fetched json
  | Wrote path string

section \<open>Credential check\<close>

definition ensure_api_key :: "env \<Rightarrow> exn + unit" where
  "ensure_api_key e =
     (if API_KEY e = [] then Inl (SunoClientError NoApiKey) else Inr ())"

section \<open>File names\<close>

text \<open>
  Characters are code points up to U+00FF. \<open>is_space\<close> is what \<^verbatim>\<open>str.strip()\<close> removes
  and \<open>word_char\<close> is the class \<^verbatim>\<open>\w\<close> of the regular-expression engine on that range.
\<close>

definition is_space :: "char \<Rightarrow> bool" where
  "is_space c = (let n = (of_char c :: nat) in
     (9 \<le> n \<and> n \<le> 13) \<or> (28 \<le> n \<and> n \<le> 32) \<or> n = 133 \<or> n = 160)"

definition word_char :: "char \<Rightarrow> bool" where
  "word_char c = (let n = (of_char c :: nat) in
     (48 \<le> n \<and> n \<le> 57) \<or> (65 \<le> n \<and> n \<le> 90) \<or> n = 95 \<or> (97 \<le> n \<and> n \<le> 122) \<or>
     n = 170 \<or> n = 178 \<or> n = 179 \<or> n = 181 \<or> n = 185 \<or> n = 186 \<or>
     (188 \<le> n \<and> n \<le> 190) \<or> (192 \<le> n \<and> n \<le> 214) \<or> (216 \<le> n \<and> n \<le> 246) \<or>
     (248 \<le> n \<and> n \<le> 255))"

text \<open>The characters the pattern \<^verbatim>\<open>[^\w\-]\<close> does not match.\<close>

definition keep_char :: "char \<Rightarrow> bool" where
  "keep_char c = (word_char c \<or> c = CHR ''-'')"

text \<open>\<^verbatim>\<open>s.strip()\<close> and \<^verbatim>\<open>s.strip("_")\<close>.\<close>

definition strip_chars :: "(char \<Rightarrow> bool) \<Rightarrow> string \<Rightarrow> string" where
  "strip_chars P s = rev (dropWhile P (rev (dropWhile P s)))"

text \<open>\<^verbatim>\<open>re.sub(r"[^\w\-]+", "_", s)\<close>: scanning from the left, the longest match at the
  first matching position is replaced and the scan goes on behind it.\<close>

function re_sub_runs :: "string \<Rightarrow> string" where
  "re_sub_runs [] = []"
| "re_sub_runs (c # cs) =
     (if keep_char c then c # re_sub_runs cs
      else CHR ''_'' # re_sub_runs (dropWhile (\<lambda>d. \<not> keep_char d) cs))"
  by pat_completeness auto
termination
  by (relation "measure length") (auto simp: le_imp_less_Suc length_dropWhile_le)

definition slugify :: "string \<Rightarrow> string" where
  "slugify title =
     (let t = strip_chars is_space title in
      if t = [] then ''hakimi_track''
      else let slug = strip_chars (\<lambda>c. c = CHR ''_'') (re_sub_runs t) in
           if slug = [] then ''hakimi_track'' else slug)"

text \<open>\<^verbatim>\<open>filename.rsplit(".", 1)[0]\<close>: the part before the last dot, the whole name when
  it has no dot.\<close>

definition rsplit_dot_head :: "string \<Rightarrow> string" where
  "rsplit_dot_head s =
     (if CHR ''.'' \<in> set s then rev (tl (dropWhile (\<lambda>c. c \<noteq> CHR ''.'') (rev s))) else s)"

section \<open>Submission\<close>

definition create_request ::
  "env \<Rightarrow> string \<Rightarrow> string \<Rightarrow> string list option \<Rightarrow> bool \<Rightarrow> http_request" where
  "create_request e music_prompt_en title tags make_instrumental =
     (let tags' = (case tags of None \<Rightarrow> [''electronic'', ''meme'', ''fast'', ''cute'']
                              | Some ts \<Rightarrow> ts)
      in \<lparr> url = BASE_URL e @ ''/api/v1/suno/create'',
           headers = [(''Authorization'', ''Bearer '' @ API_KEY e),
                      (''Content-Type'', ''application/json'')],
           payload = [(''custom_mode'', JBool False),
                      (''gpt_description_prompt'', JStr music_prompt_en),
                      (''make_instrumental'', JBool make_instrumental),
                      (''mv'', JStr ''chirp-v4'')] \<rparr>)"

text \<open>The validation of the acknowledgment, lines 92 to 98. A body that is not a
  dictionary has no \<^verbatim>\<open>get\<close>.\<close>

definition read_task_id :: "json \<Rightarrow> exn + json" where
  "read_task_id data =
     (case data of
        JObj d \<Rightarrow>
          (if dget d ''message'' \<noteq> JStr ''success'' \<or> \<not> has_key d ''task_id''
           then Inl (SunoClientError (CreateFailed data))
           else Inr (dget d ''task_id''))
      | _ \<Rightarrow> Inl AttributeError)"

text \<open>Lines 63 to 98. A body that does not parse makes \<^verbatim>\<open>resp.json()\<close> raise the
  library's \<^verbatim>\<open>JSONDecodeError\<close>, which nothing catches here.\<close>

definition create_suno_task ::
  "env \<Rightarrow> string \<Rightarrow> string \<Rightarrow> string list option \<Rightarrow> bool \<Rightarrow> (exn + json) \<times> event list" where
  "create_suno_task e music_prompt_en title tags make_instrumental =
     (case ensure_api_key e of
        Inl x \<Rightarrow> (Inl x, [])
      | Inr _ \<Rightarrow>
          (let req = create_request e music_prompt_en title tags make_instrumental in
           case http_post e req of
             Inl x \<Rightarrow> (Inl (RequestException x), [Posted req])
           | Inr resp \<Rightarrow>
               (case raise_for_status resp of
                  Inl x \<Rightarrow> (Inl x, [Posted req])
                | Inr _ \<Rightarrow>
                    (case json_body resp of
                       None \<Rightarrow> (Inl (RequestException JSONDecodeError), [Posted req])
                     | Some data \<Rightarrow> (read_task_id data, [Posted req])))))"

section \<open>Polling\<close>

text \<open>\<^verbatim>\<open>v[0]\<close>.\<close>

fun subscript0 :: "json \<Rightarrow> exn + json" where
  "subscript0 (JList (x # xs)) = Inr x"
| "subscript0 (JList []) = Inl IndexError"
| "subscript0 (JStr (c # cs)) = Inr (JStr [c])"
| "subscript0 (JStr []) = Inl IndexError"
| "subscript0 (JObj d) = Inl KeyError"
| "subscript0 _ = Inl TypeError"

text \<open>How one pass through the loop body ends once the status query has answered: the
  function returns, it raises, or it sleeps and starts the next pass.\<close>

datatype outcome = Return dict | Raise exn | Sleep

text \<open>Lines 149 to 161, on the parsed body.\<close>

definition inspect_body :: "json \<Rightarrow> outcome" where
  "inspect_body data =
     (case data of
        JObj d \<Rightarrow>
          (if py_eq_int (dget d ''code'') 200 \<and> truthy (dget d ''data'') then
             (case subscript0 (dget d ''data'') of
                Inl x \<Rightarrow> Raise x
              | Inr clip \<Rightarrow>
                  (case clip of
                     JObj c \<Rightarrow>
                       (let state = dget c ''state'' in
                        if state = JStr ''succeeded'' then Return c
                        else if state = JStr ''failed''
                        then Raise (SunoClientError (TaskFailed clip))
                        else Sleep)
                   | _ \<Rightarrow> Raise AttributeError))
           else Sleep)
      | _ \<Rightarrow> Raise AttributeError)"

text \<open>Lines 124 to 163, on what the status query did.\<close>

definition poll_body :: "request_exception + response \<Rightarrow> outcome" where
  "poll_body reply =
     (case reply of
        Inl x \<Rightarrow> Sleep
      | Inr resp \<Rightarrow>
          (if status_code resp = 202 then Sleep
           else if status_code resp \<noteq> 200
           then Raise (SunoClientError (StatusFailed (status_code resp) (resp_text resp)))
           else (case json_body resp of
                   None \<Rightarrow> Raise (SunoClientError (NotJson (resp_text resp)))
                 | Some data \<Rightarrow> inspect_body data)))"

text \<open>\<^verbatim>\<open>int(x)\<close> on a float: truncation toward zero.\<close>

definition py_int :: "rat \<Rightarrow> int" where
  "py_int q = (if 0 \<le> q then \<lfloor>q\<rfloor> else \<lceil>q\<rceil>)"

text \<open>
  The loop of lines 116 to 163. \<open>now\<close> is the clock reading \<^verbatim>\<open>time.time() - start\<close>,
  in seconds. A status query advances the clock by the time it takes, a sleep by the
  interval; \<^verbatim>\<open>time.sleep\<close> raises \<^verbatim>\<open>ValueError\<close> on a negative argument. The loop
  need not end, so the result is optional: \<open>None\<close> is a call that never returns.
\<close>

partial_function (option) poll_loop ::
  "env \<Rightarrow> json \<Rightarrow> int \<Rightarrow> int \<Rightarrow> rat \<Rightarrow> nat \<Rightarrow> event list
     \<Rightarrow> ((exn + dict) \<times> rat \<times> event list) option" where
  "poll_loop e task_id max_wait interval now attempt tr =
     (let elapsed = py_int now in
      if elapsed > max_wait
      then Some (Inl (SunoClientError (PollTimedOut max_wait task_id)), now,
                 tr @ [Checked elapsed])
      else
        (let attempt' = attempt + 1;
             q = status_query e task_id attempt';
             now' = now + fst q;
             tr' = tr @ [Checked elapsed, Queried task_id attempt']
         in case poll_body (snd q) of
              Return clip \<Rightarrow> Some (Inr clip, now', tr')
            | Raise x \<Rightarrow> Some (Inl x, now', tr')
            | Sleep \<Rightarrow>
                (if interval < 0 then Some (Inl ValueError, now', tr')
                 else poll_loop e task_id max_wait interval (now' + of_int interval) attempt'
                        (tr' @ [Slept interval]))))"

declare poll_loop.simps [code]

definition poll_suno_task ::
  "env \<Rightarrow> json \<Rightarrow> int \<Rightarrow> int \<Rightarrow> ((exn + dict) \<times> rat \<times> event list) option" where
  "poll_suno_task e task_id max_wait interval =
     (case ensure_api_key e of
        Inl x \<Rightarrow> Some (Inl x, 0, [])
      | Inr _ \<Rightarrow> poll_loop e task_id max_wait interval 0 0 [])"

section \<open>Retrieval\<close>

text \<open>The dictionary of lines 206 to 213; \<open>song_title\<close> and \<open>song_tags\<close> are its keys
  \<^verbatim>\<open>title\<close> and \<^verbatim>\<open>tags\<close>.\<close>

record generation_result =
  audio_path :: path
  cover_path :: "path option"
  song_title :: json
  song_tags :: json
  duration :: json
  clip_id :: json

text \<open>Lines 189 to 203: the cover, when the clip names one.\<close>

definition download_cover :: "env \<Rightarrow> json \<Rightarrow> string \<Rightarrow> path option \<times> event list" where
  "download_cover e image_url filename =
     (let cover_filename = rsplit_dot_head filename @ ''_cover.jpg'';
          cover_filepath = OUTPUT_DIR cover_filename
      in case http_get e image_url of
           Inl x \<Rightarrow> (None, [Fetched image_url])
         | Inr resp \<Rightarrow>
             (case raise_for_status resp of
                Inl x \<Rightarrow> (None, [Fetched image_url])
              | Inr _ \<Rightarrow>
                  (if disk_ok e cover_filepath
                   then (Some cover_filepath,
                         [Fetched image_url, Wrote cover_filepath (content resp)])
                   else (None, [Fetched image_url]))))"

definition download_audio ::
  "env \<Rightarrow> dict \<Rightarrow> string \<Rightarrow> (exn + generation_result) \<times> event list" where
  "download_audio e clip filename =
     (let audio_url = dget clip ''audio_url'' in
      if \<not> truthy audio_url then (Inl (SunoClientError (NoAudioUrl (JObj clip))), [])
      else
        (let audio_filepath = OUTPUT_DIR filename in
         case http_get e audio_url of
           Inl x \<Rightarrow> (Inl (RequestException x), [Fetched audio_url])
         | Inr resp \<Rightarrow>
             (case raise_for_status resp of
                Inl x \<Rightarrow> (Inl x, [Fetched audio_url])
              | Inr _ \<Rightarrow>
                  (if \<not> disk_ok e audio_filepath then (Inl OSError, [Fetched audio_url])
                   else
                     (let image_url = dget clip ''image_url'';
                          cover = (if truthy image_url
                                   then download_cover e image_url filename
                                   else (None, []))
                      in (Inr \<lparr> audio_path = audio_filepath,
                                cover_path = fst cover,
                                song_title = dget clip ''title'',
                                song_tags = dget clip ''tags'',
                                duration = dget clip ''duration'',
                                clip_id = dget clip ''clip_id'' \<rparr>,
                          [Fetched audio_url, Wrote audio_filepath (content resp)]
                            @ snd cover))))))"

section \<open>The entry point\<close>

definition generate_music_from_prompt_en ::
  "env \<Rightarrow> string \<Rightarrow> string \<Rightarrow> string list option \<Rightarrow> bool \<Rightarrow> int \<Rightarrow> int
     \<Rightarrow> ((exn + generation_result) \<times> event list) option" where
  "generate_music_from_prompt_en e music_prompt_en title tags make_instrumental
       max_wait interval =
     (let safe_title = slugify title;
          filename = safe_title @ ''.mp3''
      in case create_suno_task e music_prompt_en title tags make_instrumental of
           (Inl x, ev1) \<Rightarrow> Some (Inl x, ev1)
         | (Inr task_id, ev1) \<Rightarrow>
             (case poll_suno_task e task_id max_wait interval of
                None \<Rightarrow> None
              | Some (Inl x, t, ev2) \<Rightarrow> Some (Inl x, ev1 @ ev2)
              | Some (Inr clip, t, ev2) \<Rightarrow>
                  (case download_audio e clip filename of
                     (r, ev3) \<Rightarrow> Some (r, ev1 @ ev2 @ ev3))))"

section \<open>The specification's wording, for comparison\<close>

text \<open>
  The specification describes the slug without the initial \<^verbatim>\<open>strip()\<close>: every maximal
  run of characters outside alphanumerics, underscore and hyphen becomes one underscore,
  leading and trailing underscores are trimmed, and an empty result is replaced by the
  fallback name. \<open>spec_collapse in_run s\<close> reads \<open>s\<close> from the left; \<open>in_run\<close> says that
  the previous character belonged to a run that has already been replaced.
\<close>

fun spec_collapse :: "bool \<Rightarrow> string \<Rightarrow> string" where
  "spec_collapse in_run [] = []"
| "spec_collapse in_run (c # cs) =
     (if keep_char c then c # spec_collapse False cs
      else if in_run then spec_collapse True cs
      else CHR ''_'' # spec_collapse True cs)"

definition spec_slug :: "string \<Rightarrow> string" where
  "spec_slug title =
     (let s = strip_chars (\<lambda>c. c = CHR ''_'') (spec_collapse False title)
      in if s = [] then ''hakimi_track'' else s)"

text \<open>
  The specification's check-then-wait order, as a test on the events of one polling
  call: every pass checks the deadline, then queries, then sleeps; the last pass ends at
  the check (deadline exceeded) or at the query (the call returned or raised).
\<close>

fun check_then_wait :: "event list \<Rightarrow> bool" where
  "check_then_wait [Checked a] = True"
| "check_then_wait [Checked a, Queried t n] = True"
| "check_then_wait (Checked a # Queried t n # Slept i # rest) = check_then_wait rest"
| "check_then_wait _ = False"

section \<open>Scenarios\<close>

text \<open>
  A service that acknowledges every submission with task \<^verbatim>\<open>abc123\<close>, answers the
  \<open>n\<close>-th status query as \<open>q n\<close> says, serves the audio at \<^verbatim>\<open>http://x/a.mp3\<close> and is
  unreachable at every other address.
\<close>

definition ok_response :: "json \<Rightarrow> response" where
  "ok_response body =
     \<lparr> status_code = 200, resp_text = [], content = [], json_body = Some body \<rparr>"

definition pending_response :: response where
  "pending_response = \<lparr> status_code = 202, resp_text = [], content = [], json_body = None \<rparr>"

definition service :: "(nat \<Rightarrow> rat \<times> (request_exception + response)) \<Rightarrow> env" where
  "service q =
     \<lparr> API_KEY = ''key'',
       BASE_URL = ''https://api.sunoapi.com'',
       http_post = (\<lambda>req. Inr (ok_response
          (JObj [(''message'', JStr ''success''), (''task_id'', JStr ''abc123'')]))),
       status_query = (\<lambda>task. q),
       http_get = (\<lambda>u. if u = JStr ''http://x/a.mp3''
                          then Inr (ok_response JNull)
                          else Inl ConnectionError),
       disk_ok = (\<lambda>p. True) \<rparr>"

text \<open>Scenarios A, B and E: two status queries answer 202, the third answers 200 with a
  succeeded clip. Every status query takes \<open>rtt\<close> seconds.\<close>

definition scenario_clip :: dict where
  "scenario_clip =
     [(''state'', JStr ''succeeded''), (''audio_url'', JStr ''http://x/a.mp3''),
      (''title'', JStr ''T''), (''duration'', JInt 30), (''clip_id'', JStr ''c1'')]"

definition clips_response :: "dict \<Rightarrow> response" where
  "clips_response clip =
     ok_response (JObj [(''code'', JInt 200), (''data'', JList [JObj clip])])"

definition scenario_env :: "rat \<Rightarrow> env" where
  "scenario_env rtt =
     service (\<lambda>n. (rtt, if n \<le> 2 then Inr pending_response
                         else Inr (clips_response scenario_clip)))"

text \<open>Scenario D: every status query answers 202; the \<open>n\<close>-th takes \<open>rtt n\<close> seconds.\<close>

definition pending_env :: "(nat \<Rightarrow> rat) \<Rightarrow> env" where
  "pending_env rtt = service (\<lambda>n. (rtt n, Inr pending_response))"

text \<open>Round-trip times: the same for every query, or half a second for the first query,
  two fifths of a second for the second and none after that.\<close>

definition steady :: "rat \<Rightarrow> nat \<Rightarrow> rat" where
  "steady r n = r"

definition uneven :: "nat \<Rightarrow> rat" where
  "uneven n = (if n = 1 then 1 / 2 else if n = 2 then 2 / 5 else 0)"

text \<open>The first status query fails at the connection, the second answers with the
  succeeded clip; no query takes time.\<close>

definition flaky_env :: env where
  "flaky_env =
     service (\<lambda>n. (0, if n = 1 then Inl ConnectionError
                        else Inr (clips_response scenario_clip)))"

text \<open>Every status query gets the same reply and takes one second.\<close>

definition constant_env :: "request_exception + response \<Rightarrow> env" where
  "constant_env reply = service (\<lambda>n. (1, reply))"

text \<open>The scenario service with another answer to the submission, or with other
  downloads.\<close>

definition submission_env :: "request_exception + response \<Rightarrow> env" where
  "submission_env reply = (scenario_env 0) \<lparr> http_post := (\<lambda>req. reply) \<rparr>"

definition download_env :: "(json \<Rightarrow> request_exception + response) \<Rightarrow> env" where
  "download_env get = (scenario_env 0) \<lparr> http_get := get \<rparr>"

text \<open>Downloads that answer 300 for the cover image and 200 for everything else.\<close>

definition cover_answers_300 :: "json \<Rightarrow> request_exception + response" where
  "cover_answers_300 u =
     Inr ((ok_response JNull)
            \<lparr> status_code := (if u = JStr ''http://x/c.jpg'' then 300 else 200) \<rparr>)"

text \<open>Downloads that answer 300 for every address.\<close>

definition answers_300 :: "json \<Rightarrow> request_exception + response" where
  "answers_300 u = Inr ((ok_response JNull) \<lparr> status_code := 300 \<rparr>)"

text \<open>The scenario's clip with a cover image.\<close>

definition cover_clip :: dict where
  "cover_clip = (''image_url'', JStr ''http://x/c.jpg'') # scenario_clip"

text \<open>A service whose first status query answers with that clip and whose downloads all
  succeed.\<close>

definition cover_env :: env where
  "cover_env =
     (constant_env (Inr (clips_response cover_clip)))
       \<lparr> http_get := (\<lambda>u. Inr (ok_response JNull)) \<rparr>"

section \<open>Facts about the scenarios\<close>

lemma service_fields:
  "API_KEY (service q) = ''key''"
  "BASE_URL (service q) = ''https://api.sunoapi.com''"
  "http_post (service q) req = Inr (ok_response
     (JObj [(''message'', JStr ''success''), (''task_id'', JStr ''abc123'')]))"
  "status_query (service q) task n = q n"
  "http_get (service q) u =
     (if u = JStr ''http://x/a.mp3'' then Inr (ok_response JNull)
      else Inl ConnectionError)"
  "disk_ok (service q) p = True"
  by (simp_all add: service_def)

section \<open>What reaches the wire at submission\<close>

text \<open>
  Claim C10. The request sent at submission does not depend on the title or on the style
  tags. Two submissions with the same description, the same instrumental flag and the
  same configuration build the same URL, headers and JSON payload, whatever their titles
  and tags are; the payload has exactly the four fields \<^verbatim>\<open>custom_mode\<close> (false),
  \<^verbatim>\<open>gpt_description_prompt\<close>, \<^verbatim>\<open>make_instrumental\<close> and \<^verbatim>\<open>mv\<close>; the only thing a
  submission sends is that request, and its result is the same for both.
\<close>

theorem submission_request_ignores_title_and_tags:
  "create_request e p t1 g1 m = create_request e p t2 g2 m \<and>
   url (create_request e p t1 g1 m) = BASE_URL e @ ''/api/v1/suno/create'' \<and>
   headers (create_request e p t1 g1 m) =
     [(''Authorization'', ''Bearer '' @ API_KEY e), (''Content-Type'', ''application/json'')] \<and>
   payload (create_request e p t1 g1 m) =
     [(''custom_mode'', JBool False), (''gpt_description_prompt'', JStr p),
      (''make_instrumental'', JBool m), (''mv'', JStr ''chirp-v4'')] \<and>
   snd (create_suno_task e p t1 g1 m) =
     (if API_KEY e = [] then [] else [Posted (create_request e p t2 g2 m)]) \<and>
   create_suno_task e p t1 g1 m = create_suno_task e p t2 g2 m"
proof -
  have req: "create_request e p t1 g1 m = create_request e p t2 g2 m"
    by (simp add: create_request_def)
  have ev: "snd (create_suno_task e p t1 g1 m) =
      (if API_KEY e = [] then [] else [Posted (create_request e p t1 g1 m)])"
    by (simp add: create_suno_task_def ensure_api_key_def Let_def
          split: sum.split option.split)
  have same: "create_suno_task e p t1 g1 m = create_suno_task e p t2 g2 m"
    unfolding create_suno_task_def req by (rule refl)
  show ?thesis
    using req ev same by (simp add: create_request_def)
qed

theorem submission_request_ignores_title_and_tags_witness:
  "create_request (scenario_env 0) ''calm piano'' ''Title A'' None False =
     create_request (scenario_env 0) ''calm piano'' ''Title B'' (Some [''rock'']) False \<and>
   snd (create_suno_task (scenario_env 0) ''calm piano'' ''Title A'' None False) =
     [Posted (create_request (scenario_env 0) ''calm piano'' ''Title B'' (Some [''rock'']) False)]"
  using submission_request_ignores_title_and_tags
    [of "scenario_env 0" "''calm piano''" "''Title A''" None False "''Title B''" "Some [''rock'']"]
  by (auto simp: scenario_env_def service_fields)

section \<open>One pass of the polling loop\<close>

lemma poll_loop_timeout:
  "max_wait < py_int now \<Longrightarrow>
   poll_loop e task max_wait interval now n tr =
     Some (Inl (SunoClientError (PollTimedOut max_wait task)), now, tr @ [Checked (py_int now)])"
  by (subst poll_loop.simps) (simp add: Let_def)

lemma poll_loop_return:
  "\<not> max_wait < py_int now \<Longrightarrow> poll_body (snd (status_query e task (Suc n))) = Return clip \<Longrightarrow>
   poll_loop e task max_wait interval now n tr =
     Some (Inr clip, now + fst (status_query e task (Suc n)),
           tr @ [Checked (py_int now), Queried task (Suc n)])"
  by (subst poll_loop.simps) (simp add: Let_def)

lemma poll_loop_raise:
  "\<not> max_wait < py_int now \<Longrightarrow> poll_body (snd (status_query e task (Suc n))) = Raise x \<Longrightarrow>
   poll_loop e task max_wait interval now n tr =
     Some (Inl x, now + fst (status_query e task (Suc n)),
           tr @ [Checked (py_int now), Queried task (Suc n)])"
  by (subst poll_loop.simps) (simp add: Let_def)

lemma poll_loop_bad_sleep:
  "\<not> max_wait < py_int now \<Longrightarrow> poll_body (snd (status_query e task (Suc n))) = Sleep \<Longrightarrow>
   interval < 0 \<Longrightarrow>
   poll_loop e task max_wait interval now n tr =
     Some (Inl ValueError, now + fst (status_query e task (Suc n)),
           tr @ [Checked (py_int now), Queried task (Suc n)])"
  by (subst poll_loop.simps) (simp add: Let_def)

lemma poll_loop_sleep:
  "\<not> max_wait < py_int now \<Longrightarrow> poll_body (snd (status_query e task (Suc n))) = Sleep \<Longrightarrow>
   \<not> interval < 0 \<Longrightarrow>
   poll_loop e task max_wait interval now n tr =
     poll_loop e task max_wait interval
       (now + fst (status_query e task (Suc n)) + of_int interval) (Suc n)
       (tr @ [Checked (py_int now), Queried task (Suc n), Slept interval])"
  by (subst poll_loop.simps) (simp add: Let_def)

lemma inspect_body_clip:
  assumes "py_eq_int (dget body ''code'') 200" and "dget body ''data'' = JList (JObj clip # rest)"
  shows "inspect_body (JObj body) =
     (if dget clip ''state'' = JStr ''succeeded'' then Return clip
      else if dget clip ''state'' = JStr ''failed'' then Raise (SunoClientError (TaskFailed (JObj clip)))
      else Sleep)"
  using assms by (simp add: inspect_body_def Let_def)

lemma inspect_body_no_result:
  assumes "\<not> py_eq_int (dget body ''code'') 200 \<or> dget body ''data'' = JList []"
  shows "inspect_body (JObj body) = Sleep"
  using assms by (auto simp: inspect_body_def)

text \<open>
  Claim C1. One pass of the polling loop that is not past the deadline and whose status
  query got a response \<open>resp\<close> after \<open>d\<close> seconds:
  \<^item> status 202: the loop sleeps one interval and starts the next pass;
  \<^item> any status other than 202 and 200: the call raises \<^verbatim>\<open>SunoClientError\<close> with the
    status and the body text (the specification's \<^verbatim>\<open>ServiceError\<close>);
  \<^item> status 200 with a JSON object whose \<^verbatim>\<open>code\<close> equals 200 and whose \<^verbatim>\<open>data\<close> is a
    non-empty list of clips: the first clip's \<^verbatim>\<open>state\<close> decides. \<^verbatim>\<open>succeeded\<close> returns that
    clip, \<^verbatim>\<open>failed\<close> raises \<^verbatim>\<open>SunoClientError\<close> carrying the clip (the specification's
    \<^verbatim>\<open>JobFailed\<close>), any other or absent state sleeps and starts the next pass;
  \<^item> status 200 with a JSON object without code 200, or with an empty \<^verbatim>\<open>data\<close> list:
    the loop sleeps and starts the next pass.
  A sleep needs a non-negative interval. An absent key reads as \<open>JNull\<close>.
\<close>

theorem poll_iteration_dispatch:
  assumes "py_int now \<le> max_wait"
    and "status_query e task (Suc n) = (d, Inr resp)"
  shows
   "(status_code resp = 202 \<and> 0 \<le> interval \<longrightarrow>
       poll_loop e task max_wait interval now n tr =
       poll_loop e task max_wait interval (now + d + of_int interval) (Suc n)
         (tr @ [Checked (py_int now), Queried task (Suc n), Slept interval])) \<and>
    (status_code resp \<noteq> 202 \<and> status_code resp \<noteq> 200 \<longrightarrow>
       poll_loop e task max_wait interval now n tr =
       Some (Inl (SunoClientError (StatusFailed (status_code resp) (resp_text resp))),
             now + d, tr @ [Checked (py_int now), Queried task (Suc n)])) \<and>
    (status_code resp = 200 \<and> json_body resp = Some (JObj body) \<and>
     py_eq_int (dget body ''code'') 200 \<and> dget body ''data'' = JList (JObj clip # rest) \<longrightarrow>
       (dget clip ''state'' = JStr ''succeeded'' \<longrightarrow>
          poll_loop e task max_wait interval now n tr =
          Some (Inr clip, now + d, tr @ [Checked (py_int now), Queried task (Suc n)])) \<and>
       (dget clip ''state'' = JStr ''failed'' \<longrightarrow>
          poll_loop e task max_wait interval now n tr =
          Some (Inl (SunoClientError (TaskFailed (JObj clip))),
                now + d, tr @ [Checked (py_int now), Queried task (Suc n)])) \<and>
       (dget clip ''state'' \<noteq> JStr ''succeeded'' \<and> dget clip ''state'' \<noteq> JStr ''failed'' \<and>
        0 \<le> interval \<longrightarrow>
          poll_loop e task max_wait interval now n tr =
          poll_loop e task max_wait interval (now + d + of_int interval) (Suc n)
            (tr @ [Checked (py_int now), Queried task (Suc n), Slept interval]))) \<and>
    (status_code resp = 200 \<and> json_body resp = Some (JObj body) \<and>
     (\<not> py_eq_int (dget body ''code'') 200 \<or> dget body ''data'' = JList []) \<and>
     0 \<le> interval \<longrightarrow>
       poll_loop e task max_wait interval now n tr =
       poll_loop e task max_wait interval (now + d + of_int interval) (Suc n)
         (tr @ [Checked (py_int now), Queried task (Suc n), Slept interval]))"
proof -
  have nt: "\<not> max_wait < py_int now" using assms(1) by simp
  have q: "fst (status_query e task (Suc n)) = d" "snd (status_query e task (Suc n)) = Inr resp"
    using assms(2) by simp_all
  have pending: "status_code resp = 202 \<Longrightarrow> poll_body (Inr resp) = Sleep"
    by (simp add: poll_body_def)
  have other: "status_code resp \<noteq> 202 \<Longrightarrow> status_code resp \<noteq> 200 \<Longrightarrow>
      poll_body (Inr resp) = Raise (SunoClientError (StatusFailed (status_code resp) (resp_text resp)))"
    by (simp add: poll_body_def)
  have parsed: "\<And>data. status_code resp = 200 \<Longrightarrow> json_body resp = Some data \<Longrightarrow>
      poll_body (Inr resp) = inspect_body data"
    by (simp add: poll_body_def)
  show ?thesis
  proof (intro conjI impI)
    assume "status_code resp = 202 \<and> 0 \<le> interval"
    then show "poll_loop e task max_wait interval now n tr =
       poll_loop e task max_wait interval (now + d + of_int interval) (Suc n)
         (tr @ [Checked (py_int now), Queried task (Suc n), Slept interval])"
      using poll_loop_sleep[OF nt, of e task n interval tr] pending q by simp
  next
    assume "status_code resp \<noteq> 202 \<and> status_code resp \<noteq> 200"
    then show "poll_loop e task max_wait interval now n tr =
       Some (Inl (SunoClientError (StatusFailed (status_code resp) (resp_text resp))),
             now + d, tr @ [Checked (py_int now), Queried task (Suc n)])"
      using poll_loop_raise[OF nt, of e task n _ interval tr] other q by simp
  next
    assume a: "status_code resp = 200 \<and> json_body resp = Some (JObj body) \<and>
     py_eq_int (dget body ''code'') 200 \<and> dget body ''data'' = JList (JObj clip # rest)"
      and s: "dget clip ''state'' = JStr ''succeeded''"
    have "poll_body (Inr resp) = Return clip"
      using a s parsed[of "JObj body"] inspect_body_clip[of body clip rest] by simp
    then show "poll_loop e task max_wait interval now n tr =
          Some (Inr clip, now + d, tr @ [Checked (py_int now), Queried task (Suc n)])"
      using poll_loop_return[OF nt, of e task n clip interval tr] q by simp
  next
    assume a: "status_code resp = 200 \<and> json_body resp = Some (JObj body) \<and>
     py_eq_int (dget body ''code'') 200 \<and> dget body ''data'' = JList (JObj clip # rest)"
      and s: "dget clip ''state'' = JStr ''failed''"
    have "poll_body (Inr resp) = Raise (SunoClientError (TaskFailed (JObj clip)))"
      using a s parsed[of "JObj body"] inspect_body_clip[of body clip rest] by simp
    then show "poll_loop e task max_wait interval now n tr =
          Some (Inl (SunoClientError (TaskFailed (JObj clip))),
                now + d, tr @ [Checked (py_int now), Queried task (Suc n)])"
      using poll_loop_raise[OF nt, of e task n _ interval tr] q by simp
  next
    assume a: "status_code resp = 200 \<and> json_body resp = Some (JObj body) \<and>
     py_eq_int (dget body ''code'') 200 \<and> dget body ''data'' = JList (JObj clip # rest)"
      and s: "dget clip ''state'' \<noteq> JStr ''succeeded'' \<and> dget clip ''state'' \<noteq> JStr ''failed'' \<and>
        0 \<le> interval"
    have "poll_body (Inr resp) = Sleep"
      using a s parsed[of "JObj body"] inspect_body_clip[of body clip rest] by simp
    then show "poll_loop e task max_wait interval now n tr =
          poll_loop e task max_wait interval (now + d + of_int interval) (Suc n)
            (tr @ [Checked (py_int now), Queried task (Suc n), Slept interval])"
      using poll_loop_sleep[OF nt, of e task n interval tr] q s by simp
  next
    assume a: "status_code resp = 200 \<and> json_body resp = Some (JObj body) \<and>
     (\<not> py_eq_int (dget body ''code'') 200 \<or> dget body ''data'' = JList []) \<and>
     0 \<le> interval"
    have "poll_body (Inr resp) = Sleep"
      using a parsed[of "JObj body"] inspect_body_no_result[of body] by simp
    then show "poll_loop e task max_wait interval now n tr =
       poll_loop e task max_wait interval (now + d + of_int interval) (Suc n)
         (tr @ [Checked (py_int now), Queried task (Suc n), Slept interval])"
      using poll_loop_sleep[OF nt, of e task n interval tr] q a by simp
  qed
qed


theorem poll_iteration_dispatch_witness:
  "poll_loop (constant_env (Inr pending_response)) (JStr ''abc123'') 30 15 0 0 [] =
     poll_loop (constant_env (Inr pending_response)) (JStr ''abc123'') 30 15 16 1
       [Checked 0, Queried (JStr ''abc123'') 1, Slept 15] \<and>
   poll_loop (constant_env (Inr (pending_response \<lparr> status_code := 500, resp_text := ''oops'' \<rparr>)))
       (JStr ''abc123'') 30 15 0 0 [] =
     Some (Inl (SunoClientError (StatusFailed 500 ''oops'')), 1,
           [Checked 0, Queried (JStr ''abc123'') 1]) \<and>
   poll_loop (constant_env (Inr (clips_response scenario_clip))) (JStr ''abc123'') 30 15 0 0 [] =
     Some (Inr scenario_clip, 1, [Checked 0, Queried (JStr ''abc123'') 1]) \<and>
   poll_loop (constant_env (Inr (clips_response [(''state'', JStr ''failed'')])))
       (JStr ''abc123'') 30 15 0 0 [] =
     Some (Inl (SunoClientError (TaskFailed (JObj [(''state'', JStr ''failed'')]))), 1,
           [Checked 0, Queried (JStr ''abc123'') 1]) \<and>
   poll_loop (constant_env (Inr (clips_response [(''clip_id'', JStr ''c1'')])))
       (JStr ''abc123'') 30 15 0 0 [] =
     poll_loop (constant_env (Inr (clips_response [(''clip_id'', JStr ''c1'')])))
       (JStr ''abc123'') 30 15 16 1 [Checked 0, Queried (JStr ''abc123'') 1, Slept 15] \<and>
   poll_loop (constant_env (Inr (ok_response (JObj [(''code'', JInt 0)]))))
       (JStr ''abc123'') 30 15 0 0 [] =
     poll_loop (constant_env (Inr (ok_response (JObj [(''code'', JInt 0)]))))
       (JStr ''abc123'') 30 15 16 1 [Checked 0, Queried (JStr ''abc123'') 1, Slept 15]"
proof -
  have c: "py_int 0 \<le> 30" by (simp add: py_int_def)
  have q: "\<And>r. status_query (constant_env r) (JStr ''abc123'') (Suc 0) = (1, r)"
    by (simp add: constant_env_def service_fields)
  note t = poll_iteration_dispatch [OF c q, where interval = 15 and tr = "[]"]
  have 1: "poll_loop (constant_env (Inr pending_response)) (JStr ''abc123'') 30 15 0 0 [] =
     poll_loop (constant_env (Inr pending_response)) (JStr ''abc123'') 30 15 16 1
       [Checked 0, Queried (JStr ''abc123'') 1, Slept 15]"
    using t [of pending_response] by (simp add: pending_response_def py_int_def)
  have 2: "poll_loop (constant_env (Inr (pending_response \<lparr> status_code := 500, resp_text := ''oops'' \<rparr>)))
       (JStr ''abc123'') 30 15 0 0 [] =
     Some (Inl (SunoClientError (StatusFailed 500 ''oops'')), 1,
           [Checked 0, Queried (JStr ''abc123'') 1])"
    using t [of "pending_response \<lparr> status_code := 500, resp_text := ''oops'' \<rparr>"]
    by (simp add: pending_response_def py_int_def)
  have 3: "poll_loop (constant_env (Inr (clips_response scenario_clip))) (JStr ''abc123'') 30 15 0 0 [] =
     Some (Inr scenario_clip, 1, [Checked 0, Queried (JStr ''abc123'') 1])"
    using t [of "clips_response scenario_clip"
               "[(''code'', JInt 200), (''data'', JList [JObj scenario_clip])]" scenario_clip "[]"]
    by (simp add: clips_response_def ok_response_def scenario_clip_def dget_def py_int_def)
  have 4: "poll_loop (constant_env (Inr (clips_response [(''state'', JStr ''failed'')])))
       (JStr ''abc123'') 30 15 0 0 [] =
     Some (Inl (SunoClientError (TaskFailed (JObj [(''state'', JStr ''failed'')]))), 1,
           [Checked 0, Queried (JStr ''abc123'') 1])"
    using t [of "clips_response [(''state'', JStr ''failed'')]"
               "[(''code'', JInt 200), (''data'', JList [JObj [(''state'', JStr ''failed'')]])]"
               "[(''state'', JStr ''failed'')]" "[]"]
    by (simp add: clips_response_def ok_response_def dget_def py_int_def)
  have 5: "poll_loop (constant_env (Inr (clips_response [(''clip_id'', JStr ''c1'')])))
       (JStr ''abc123'') 30 15 0 0 [] =
     poll_loop (constant_env (Inr (clips_response [(''clip_id'', JStr ''c1'')])))
       (JStr ''abc123'') 30 15 16 1 [Checked 0, Queried (JStr ''abc123'') 1, Slept 15]"
    using t [of "clips_response [(''clip_id'', JStr ''c1'')]"
               "[(''code'', JInt 200), (''data'', JList [JObj [(''clip_id'', JStr ''c1'')]])]"
               "[(''clip_id'', JStr ''c1'')]" "[]"]
    by (simp add: clips_response_def ok_response_def dget_def py_int_def)
  have 6: "poll_loop (constant_env (Inr (ok_response (JObj [(''code'', JInt 0)]))))
       (JStr ''abc123'') 30 15 0 0 [] =
     poll_loop (constant_env (Inr (ok_response (JObj [(''code'', JInt 0)]))))
       (JStr ''abc123'') 30 15 16 1 [Checked 0, Queried (JStr ''abc123'') 1, Slept 15]"
    using t [of "ok_response (JObj [(''code'', JInt 0)])" "[(''code'', JInt 0)]"]
    by (simp add: ok_response_def dget_def py_int_def)
  show ?thesis using 1 2 3 4 5 6 by blast
qed

section \<open>What a submission returns\<close>

lemma read_task_id_handle:
  "read_task_id data = Inr h \<longleftrightarrow>
     (\<exists>d. data = JObj d \<and> dget d ''message'' = JStr ''success'' \<and> map_of d ''task_id'' = Some h)"
  by (cases data) (auto simp: read_task_id_def has_key_def dget_def split: option.splits)

lemma create_suno_task_result:
  "fst (create_suno_task e p t g m) =
     (if API_KEY e = [] then Inl (SunoClientError NoApiKey)
      else case http_post e (create_request e p t g m) of
             Inl x \<Rightarrow> Inl (RequestException x)
           | Inr resp \<Rightarrow>
               (if 400 \<le> status_code resp \<and> status_code resp < 600
                then Inl (RequestException (HTTPError (status_code resp)))
                else case json_body resp of
                       None \<Rightarrow> Inl (RequestException JSONDecodeError)
                     | Some data \<Rightarrow> read_task_id data))"
  by (simp add: create_suno_task_def ensure_api_key_def raise_for_status_def Let_def
        split: sum.split option.split)

text \<open>
  Claim C4, as amended. With a configured key, a submission returns a job handle exactly
  when the transport succeeds with a status that \<^verbatim>\<open>raise_for_status\<close> accepts (any status
  outside 400 to 599, not only 2xx), the body is a JSON object whose \<^verbatim>\<open>message\<close> is
  \<^verbatim>\<open>success\<close> and which has a \<^verbatim>\<open>task_id\<close>; the handle is that \<^verbatim>\<open>task_id\<close> value. When the
  status is accepted and the body is a JSON object that fails either condition, the call
  raises \<^verbatim>\<open>SunoClientError\<close> carrying the body (the specification's \<^verbatim>\<open>ServiceRejected\<close>).
\<close>

theorem submission_returns_handle_iff:
  "(fst (create_suno_task e p t g m) = Inr h \<longleftrightarrow>
      API_KEY e \<noteq> [] \<and>
      (\<exists>resp d. http_post e (create_request e p t g m) = Inr resp \<and>
         \<not> (400 \<le> status_code resp \<and> status_code resp < 600) \<and>
         json_body resp = Some (JObj d) \<and>
         dget d ''message'' = JStr ''success'' \<and> map_of d ''task_id'' = Some h)) \<and>
   (API_KEY e \<noteq> [] \<and> http_post e (create_request e p t g m) = Inr resp' \<and>
    \<not> (400 \<le> status_code resp' \<and> status_code resp' < 600) \<and>
    json_body resp' = Some (JObj d') \<and>
    \<not> (dget d' ''message'' = JStr ''success'' \<and> has_key d' ''task_id'') \<longrightarrow>
      fst (create_suno_task e p t g m) = Inl (SunoClientError (CreateFailed (JObj d'))))"
proof (intro conjI impI)
  show "fst (create_suno_task e p t g m) = Inr h \<longleftrightarrow>
      API_KEY e \<noteq> [] \<and>
      (\<exists>resp d. http_post e (create_request e p t g m) = Inr resp \<and>
         \<not> (400 \<le> status_code resp \<and> status_code resp < 600) \<and>
         json_body resp = Some (JObj d) \<and>
         dget d ''message'' = JStr ''success'' \<and> map_of d ''task_id'' = Some h)"
    unfolding create_suno_task_result
    by (auto simp: read_task_id_handle split: sum.splits option.splits)
next
  assume "API_KEY e \<noteq> [] \<and> http_post e (create_request e p t g m) = Inr resp' \<and>
    \<not> (400 \<le> status_code resp' \<and> status_code resp' < 600) \<and>
    json_body resp' = Some (JObj d') \<and>
    \<not> (dget d' ''message'' = JStr ''success'' \<and> has_key d' ''task_id'')"
  then show "fst (create_suno_task e p t g m) = Inl (SunoClientError (CreateFailed (JObj d')))"
    unfolding create_suno_task_result by (auto simp: read_task_id_def)
qed

lemma scenario_env_fields:
  "API_KEY (scenario_env r) = ''key''"
  "http_post (scenario_env r) req = Inr (ok_response
     (JObj [(''message'', JStr ''success''), (''task_id'', JStr ''abc123'')]))"
  "http_get (scenario_env r) u =
     (if u = JStr ''http://x/a.mp3'' then Inr (ok_response JNull)
      else Inl ConnectionError)"
  "disk_ok (scenario_env r) pth = True"
  by (simp_all add: scenario_env_def service_fields)

lemma submission_env_fields:
  "API_KEY (submission_env reply) = ''key''"
  "http_post (submission_env reply) req = reply"
  by (simp_all add: submission_env_def scenario_env_fields)

theorem submission_returns_handle_iff_witness:
  "fst (create_suno_task (scenario_env 0) ''calm piano'' ''T'' None False) = Inr (JStr ''abc123'') \<and>
   fst (create_suno_task
          (submission_env (Inr (ok_response (JObj [(''message'', JStr ''quota exceeded'')]))))
          ''calm piano'' ''T'' None False) =
     Inl (SunoClientError (CreateFailed (JObj [(''message'', JStr ''quota exceeded'')])))"
  using submission_returns_handle_iff
     [of "scenario_env 0" "''calm piano''" "''T''" None False "JStr ''abc123''"]
    submission_returns_handle_iff
     [of "submission_env (Inr (ok_response (JObj [(''message'', JStr ''quota exceeded'')])))"
         "''calm piano''" "''T''" None False _
         "ok_response (JObj [(''message'', JStr ''quota exceeded'')])"
         "[(''message'', JStr ''quota exceeded'')]"]
  by (simp add: scenario_env_fields submission_env_fields ok_response_def dget_def has_key_def)

text \<open>
  Claim C4 as stated fails: an answer with status 300 (not 2xx) and an acknowledging body
  yields the handle.
\<close>

theorem submission_status_300_counterexample:
  "http_post
     (submission_env (Inr ((ok_response
        (JObj [(''message'', JStr ''success''), (''task_id'', JStr ''abc123'')]))
        \<lparr> status_code := 300 \<rparr>)))
     (create_request
        (submission_env (Inr ((ok_response
           (JObj [(''message'', JStr ''success''), (''task_id'', JStr ''abc123'')]))
           \<lparr> status_code := 300 \<rparr>)))
        ''calm piano'' ''T'' None False) =
     Inr \<lparr> status_code = 300, resp_text = [], content = [],
           json_body = Some (JObj [(''message'', JStr ''success''),
                                   (''task_id'', JStr ''abc123'')]) \<rparr> \<and>
   \<not> (200 \<le> (300::int) \<and> (300::int) < 300) \<and>
   fst (create_suno_task
          (submission_env (Inr ((ok_response
             (JObj [(''message'', JStr ''success''), (''task_id'', JStr ''abc123'')]))
             \<lparr> status_code := 300 \<rparr>)))
          ''calm piano'' ''T'' None False) = Inr (JStr ''abc123'')"
  by (simp add: create_suno_task_result submission_env_fields ok_response_def
        read_task_id_def dget_def has_key_def)

section \<open>What the retriever returns\<close>

lemma download_audio_missing:
  "\<not> truthy (dget clip ''audio_url'') \<Longrightarrow>
   download_audio e clip filename = (Inl (SunoClientError (NoAudioUrl (JObj clip))), [])"
  by (simp add: download_audio_def)

lemma download_audio_first_event:
  "truthy (dget clip ''audio_url'') \<Longrightarrow>
   \<exists>evs. snd (download_audio e clip filename) = Fetched (dget clip ''audio_url'') # evs"
  by (simp add: download_audio_def Let_def split: sum.split)

lemma download_audio_other_errors:
  "truthy (dget clip ''audio_url'') \<Longrightarrow>
   fst (download_audio e clip filename) \<noteq> Inl (SunoClientError msg)"
  by (simp add: download_audio_def raise_for_status_def Let_def split: sum.split)

lemma download_cover_result:
  "fst (download_cover e image_url filename) =
     (case http_get e image_url of
        Inl x \<Rightarrow> None
      | Inr resp \<Rightarrow>
          if 400 \<le> status_code resp \<and> status_code resp < 600 then None
          else if disk_ok e (OUTPUT_DIR (rsplit_dot_head filename @ ''_cover.jpg''))
          then Some (OUTPUT_DIR (rsplit_dot_head filename @ ''_cover.jpg''))
          else None)"
  by (simp add: download_cover_def raise_for_status_def Let_def split: sum.split)

lemma download_audio_success:
  assumes "truthy (dget clip ''audio_url'')"
    and "http_get e (dget clip ''audio_url'') = Inr resp"
    and "\<not> (400 \<le> status_code resp \<and> status_code resp < 600)"
    and "disk_ok e (OUTPUT_DIR filename)"
  shows "fst (download_audio e clip filename) =
     Inr \<lparr> audio_path = OUTPUT_DIR filename,
           cover_path = (if truthy (dget clip ''image_url'')
                         then fst (download_cover e (dget clip ''image_url'') filename)
                         else None),
           song_title = dget clip ''title'',
           song_tags = dget clip ''tags'',
           duration = dget clip ''duration'',
           clip_id = dget clip ''clip_id'' \<rparr>"
  using assms by (simp add: download_audio_def raise_for_status_def Let_def)

lemma poll_suno_task_with_key:
  "API_KEY e \<noteq> [] \<Longrightarrow>
   poll_suno_task e task max_wait interval = poll_loop e task max_wait interval 0 0 []"
  by (simp add: poll_suno_task_def ensure_api_key_def)

lemma generate_after_poll:
  assumes "create_suno_task e p t g m = (Inr task, ev1)"
    and "poll_suno_task e task max_wait interval = Some (Inr clip, T, ev2)"
  shows "generate_music_from_prompt_en e p t g m max_wait interval =
     Some (fst (download_audio e clip (slugify t @ ''.mp3'')),
           ev1 @ ev2 @ snd (download_audio e clip (slugify t @ ''.mp3'')))"
  using assms by (simp add: generate_music_from_prompt_en_def Let_def split: prod.split)

text \<open>
  Claim C7. The retriever raises the missing-artifact error (\<^verbatim>\<open>SunoClientError\<close> carrying
  the clip) exactly when the clip has no usable audio reference, that is when
  \<^verbatim>\<open>audio_url\<close> is absent, empty or otherwise false, and it does so without having
  attempted a download or written a file; with a usable reference the first thing it does
  is the audio download, and no error of the module's own follows. The entry point passes
  the error on unmodified, having done nothing beyond submission and polling.
\<close>

theorem missing_audio_is_fatal_before_any_effect:
  "(download_audio e clip filename = (Inl (SunoClientError (NoAudioUrl (JObj clip))), []) \<longleftrightarrow>
      \<not> truthy (dget clip ''audio_url'')) \<and>
   (\<not> has_key clip ''audio_url'' \<or> dget clip ''audio_url'' = JStr [] \<longrightarrow>
      \<not> truthy (dget clip ''audio_url'')) \<and>
   (truthy (dget clip ''audio_url'') \<longrightarrow>
      (\<exists>evs. snd (download_audio e clip filename) = Fetched (dget clip ''audio_url'') # evs)) \<and>
   (create_suno_task e p t g m = (Inr task, ev1) \<and>
    poll_suno_task e task max_wait interval = Some (Inr clip, T, ev2) \<and>
    \<not> truthy (dget clip ''audio_url'') \<longrightarrow>
      generate_music_from_prompt_en e p t g m max_wait interval =
        Some (Inl (SunoClientError (NoAudioUrl (JObj clip))), ev1 @ ev2)) \<and>
   (fst (download_audio e clip filename) = Inl (SunoClientError msg) \<longleftrightarrow>
      \<not> truthy (dget clip ''audio_url'') \<and> msg = NoAudioUrl (JObj clip))"
proof (intro conjI impI)
  show "download_audio e clip filename = (Inl (SunoClientError (NoAudioUrl (JObj clip))), []) \<longleftrightarrow>
      \<not> truthy (dget clip ''audio_url'')"
    using download_audio_missing[of clip e filename] download_audio_first_event[of clip e filename]
    by auto
next
  assume "\<not> has_key clip ''audio_url'' \<or> dget clip ''audio_url'' = JStr []"
  then show "\<not> truthy (dget clip ''audio_url'')"
    by (auto simp: has_key_def dget_def)
next
  assume "truthy (dget clip ''audio_url'')"
  then show "\<exists>evs. snd (download_audio e clip filename) = Fetched (dget clip ''audio_url'') # evs"
    by (rule download_audio_first_event)
next
  assume a: "create_suno_task e p t g m = (Inr task, ev1) \<and>
    poll_suno_task e task max_wait interval = Some (Inr clip, T, ev2) \<and>
    \<not> truthy (dget clip ''audio_url'')"
  then show "generate_music_from_prompt_en e p t g m max_wait interval =
        Some (Inl (SunoClientError (NoAudioUrl (JObj clip))), ev1 @ ev2)"
    using generate_after_poll[of e p t g m task ev1 max_wait interval clip T ev2]
      download_audio_missing[of clip e "slugify t @ ''.mp3''"]
    by simp
next
  show "fst (download_audio e clip filename) = Inl (SunoClientError msg) \<longleftrightarrow>
      \<not> truthy (dget clip ''audio_url'') \<and> msg = NoAudioUrl (JObj clip)"
  proof (cases "truthy (dget clip ''audio_url'')")
    case True
    then show ?thesis
      using download_audio_other_errors[of clip e filename msg] by simp
  next
    case False
    then show ?thesis
      using download_audio_missing[of clip e filename] by auto
  qed
qed

lemma constant_env_fields:
  "API_KEY (constant_env reply) = ''key''"
  "http_post (constant_env reply) req = Inr (ok_response
     (JObj [(''message'', JStr ''success''), (''task_id'', JStr ''abc123'')]))"
  "status_query (constant_env reply) task n = (1, reply)"
  by (simp_all add: constant_env_def service_fields)

theorem missing_audio_is_fatal_before_any_effect_witness:
  "download_audio (scenario_env 0) [(''state'', JStr ''succeeded'')] ''T.mp3'' =
     (Inl (SunoClientError (NoAudioUrl (JObj [(''state'', JStr ''succeeded'')]))), []) \<and>
   \<not> truthy (dget [(''state'', JStr ''succeeded''), (''audio_url'', JStr [])] ''audio_url'') \<and>
   (\<exists>evs. snd (download_audio (scenario_env 0) scenario_clip ''T.mp3'') =
      Fetched (JStr ''http://x/a.mp3'') # evs) \<and>
   generate_music_from_prompt_en
     (constant_env (Inr (clips_response [(''state'', JStr ''succeeded'')])))
     ''calm piano'' ''T'' None False 30 15 =
     Some (Inl (SunoClientError (NoAudioUrl (JObj [(''state'', JStr ''succeeded'')]))),
           [Posted (create_request
              (constant_env (Inr (clips_response [(''state'', JStr ''succeeded'')])))
              ''calm piano'' ''T'' None False),
            Checked 0, Queried (JStr ''abc123'') 1])"
proof -
  let ?E = "constant_env (Inr (clips_response [(''state'', JStr ''succeeded'')]))"
  have c: "create_suno_task ?E ''calm piano'' ''T'' None False =
      (Inr (JStr ''abc123''), [Posted (create_request ?E ''calm piano'' ''T'' None False)])"
    by code_simp
  have p: "poll_suno_task ?E (JStr ''abc123'') 30 15 =
      Some (Inr [(''state'', JStr ''succeeded'')], 1, [Checked 0, Queried (JStr ''abc123'') 1])"
    by code_simp
  have 1: "download_audio (scenario_env 0) [(''state'', JStr ''succeeded'')] ''T.mp3'' =
     (Inl (SunoClientError (NoAudioUrl (JObj [(''state'', JStr ''succeeded'')]))), [])"
    using missing_audio_is_fatal_before_any_effect
      [of "scenario_env 0" "[(''state'', JStr ''succeeded'')]" "''T.mp3''"]
    by (simp add: dget_def)
  have 2: "\<not> truthy (dget [(''state'', JStr ''succeeded''), (''audio_url'', JStr [])] ''audio_url'')"
    using missing_audio_is_fatal_before_any_effect
      [of _ "[(''state'', JStr ''succeeded''), (''audio_url'', JStr [])]"]
    by (simp add: dget_def)
  have 3: "\<exists>evs. snd (download_audio (scenario_env 0) scenario_clip ''T.mp3'') =
      Fetched (JStr ''http://x/a.mp3'') # evs"
    using missing_audio_is_fatal_before_any_effect [of "scenario_env 0" scenario_clip "''T.mp3''"]
    by (simp add: dget_def scenario_clip_def)
  have 4: "generate_music_from_prompt_en ?E ''calm piano'' ''T'' None False 30 15 =
     Some (Inl (SunoClientError (NoAudioUrl (JObj [(''state'', JStr ''succeeded'')]))),
           [Posted (create_request ?E ''calm piano'' ''T'' None False),
            Checked 0, Queried (JStr ''abc123'') 1])"
    using missing_audio_is_fatal_before_any_effect
      [of ?E "[(''state'', JStr ''succeeded'')]" _ "''calm piano''" "''T''" None False
          "JStr ''abc123''" "[Posted (create_request ?E ''calm piano'' ''T'' None False)]"
          30 15 1 "[Checked 0, Queried (JStr ''abc123'') 1]"] c p
    by (simp add: dget_def)
  show ?thesis using 1 2 3 4 by blast
qed

text \<open>
  Claim C6, as amended. For a clip with a usable audio reference whose audio download
  succeeds, no outcome of the cover download makes the call fail: the call returns a
  result with the audio path set. The cover field is none when the clip names no image,
  when the image request raises (an unreachable host, for one), when it is answered with
  a status from 400 to 599, or when the cover file cannot be written; it is the cover
  path for every other answer, whatever its status.
\<close>

theorem cover_failure_is_not_fatal:
  assumes "truthy (dget clip ''audio_url'')"
    and "http_get e (dget clip ''audio_url'') = Inr resp"
    and "\<not> (400 \<le> status_code resp \<and> status_code resp < 600)"
    and "disk_ok e (OUTPUT_DIR filename)"
  shows "\<exists>r. fst (download_audio e clip filename) = Inr r \<and>
     audio_path r = OUTPUT_DIR filename \<and>
     (\<not> truthy (dget clip ''image_url'') \<longrightarrow> cover_path r = None) \<and>
     (truthy (dget clip ''image_url'') \<longrightarrow>
        (\<forall>x. http_get e (dget clip ''image_url'') = Inl x \<longrightarrow> cover_path r = None) \<and>
        (\<forall>c. http_get e (dget clip ''image_url'') = Inr c \<longrightarrow>
           (400 \<le> status_code c \<and> status_code c < 600 \<longrightarrow> cover_path r = None) \<and>
           (\<not> disk_ok e (OUTPUT_DIR (rsplit_dot_head filename @ ''_cover.jpg'')) \<longrightarrow>
              cover_path r = None) \<and>
           (\<not> (400 \<le> status_code c \<and> status_code c < 600) \<and>
            disk_ok e (OUTPUT_DIR (rsplit_dot_head filename @ ''_cover.jpg'')) \<longrightarrow>
              cover_path r = Some (OUTPUT_DIR (rsplit_dot_head filename @ ''_cover.jpg'')))))"
  using download_audio_success[OF assms]
  by (auto simp: download_cover_result)

theorem cover_failure_is_not_fatal_witness:
  "\<exists>r. fst (download_audio (scenario_env 0) cover_clip ''T.mp3'') = Inr r \<and>
     audio_path r = OUTPUT_DIR ''T.mp3'' \<and> cover_path r = None"
proof -
  have "\<exists>r. fst (download_audio (scenario_env 0) cover_clip ''T.mp3'') = Inr r \<and>
     audio_path r = OUTPUT_DIR ''T.mp3'' \<and>
     (\<not> truthy (dget cover_clip ''image_url'') \<longrightarrow> cover_path r = None) \<and>
     (truthy (dget cover_clip ''image_url'') \<longrightarrow>
        (\<forall>x. http_get (scenario_env 0) (dget cover_clip ''image_url'') = Inl x \<longrightarrow> cover_path r = None) \<and>
        (\<forall>c. http_get (scenario_env 0) (dget cover_clip ''image_url'') = Inr c \<longrightarrow>
           (400 \<le> status_code c \<and> status_code c < 600 \<longrightarrow> cover_path r = None) \<and>
           (\<not> disk_ok (scenario_env 0) (OUTPUT_DIR (rsplit_dot_head ''T.mp3'' @ ''_cover.jpg'')) \<longrightarrow>
              cover_path r = None) \<and>
           (\<not> (400 \<le> status_code c \<and> status_code c < 600) \<and>
            disk_ok (scenario_env 0) (OUTPUT_DIR (rsplit_dot_head ''T.mp3'' @ ''_cover.jpg'')) \<longrightarrow>
              cover_path r = Some (OUTPUT_DIR (rsplit_dot_head ''T.mp3'' @ ''_cover.jpg'')))))"
    by (rule cover_failure_is_not_fatal [of cover_clip "scenario_env 0" "ok_response JNull"])
       (simp_all add: cover_clip_def scenario_clip_def dget_def scenario_env_fields ok_response_def)
  then show ?thesis
    by (auto simp: cover_clip_def scenario_clip_def dget_def scenario_env_fields)
qed

text \<open>
  Claim C6 as stated fails for a non-2xx answer outside 400 to 599: the cover request is
  answered with status 300, the answer's body is written and the cover field is set.
\<close>

theorem cover_status_300_counterexample:
  "http_get (download_env cover_answers_300) (dget cover_clip ''image_url'') =
     Inr \<lparr> status_code = 300, resp_text = [], content = [], json_body = Some JNull \<rparr> \<and>
   download_audio (download_env cover_answers_300) cover_clip ''T.mp3'' =
     (Inr \<lparr> audio_path = OUTPUT_DIR ''T.mp3'',
            cover_path = Some (OUTPUT_DIR ''T_cover.jpg''),
            song_title = JStr ''T'', song_tags = JNull, duration = JInt 30,
            clip_id = JStr ''c1'' \<rparr>,
      [Fetched (JStr ''http://x/a.mp3''), Wrote (OUTPUT_DIR ''T.mp3'') [],
       Fetched (JStr ''http://x/c.jpg''), Wrote (OUTPUT_DIR ''T_cover.jpg'') []])"
  by code_simp

section \<open>The kinds of failure\<close>

lemma create_suno_task_transport:
  "API_KEY e \<noteq> [] \<Longrightarrow> http_post e (create_request e p t g m) = Inl y \<Longrightarrow>
   create_suno_task e p t g m =
     (Inl (RequestException y), [Posted (create_request e p t g m)])"
  by (simp add: create_suno_task_def ensure_api_key_def Let_def)

lemma create_suno_task_status:
  "API_KEY e \<noteq> [] \<Longrightarrow> http_post e (create_request e p t g m) = Inr resp \<Longrightarrow>
   400 \<le> status_code resp \<and> status_code resp < 600 \<Longrightarrow>
   create_suno_task e p t g m =
     (Inl (RequestException (HTTPError (status_code resp))),
      [Posted (create_request e p t g m)])"
  by (simp add: create_suno_task_def ensure_api_key_def raise_for_status_def Let_def)

lemma generate_create_failed:
  "create_suno_task e p t g m = (Inl x, ev1) \<Longrightarrow>
   generate_music_from_prompt_en e p t g m max_wait interval = Some (Inl x, ev1)"
  by (simp add: generate_music_from_prompt_en_def Let_def)

lemma generate_poll_failed:
  "create_suno_task e p t g m = (Inr task, ev1) \<Longrightarrow>
   poll_suno_task e task max_wait interval = Some (Inl x, T, ev2) \<Longrightarrow>
   generate_music_from_prompt_en e p t g m max_wait interval = Some (Inl x, ev1 @ ev2)"
  by (simp add: generate_music_from_prompt_en_def Let_def)

text \<open>
  Claim C9, as amended. Each fatal error the module raises itself is a
  \<^verbatim>\<open>SunoClientError\<close>, told apart by its message only: the missing credential (at
  submission and at polling), the rejected submission, the status other than 200 and 202
  while polling, the poll body that does not parse, the failed job, the exceeded deadline
  and the missing audio reference. What the HTTP library raises at submission and at the
  audio download, a connection-level exception or the \<^verbatim>\<open>HTTPError\<close> of
  \<^verbatim>\<open>raise_for_status\<close> for a status from 400 to 599, leaves the function as it is. A
  response with any other status, 2xx or not, raises no \<^verbatim>\<open>HTTPError\<close> at submission
  and no exception of the library at the audio download: the function goes on with its
  body. Whatever the loop body or one of the three stages raises leaves the loop and the
  entry point unchanged.
\<close>

theorem fatal_errors_by_type:
  "(API_KEY e = [] \<longrightarrow>
      create_suno_task e p t g m = (Inl (SunoClientError NoApiKey), []) \<and>
      poll_suno_task e task max_wait interval = Some (Inl (SunoClientError NoApiKey), 0, [])) \<and>
   (API_KEY e \<noteq> [] \<and> http_post e (create_request e p t g m) = Inr resp \<and>
    \<not> (400 \<le> status_code resp \<and> status_code resp < 600) \<and>
    json_body resp = Some (JObj d) \<and>
    \<not> (dget d ''message'' = JStr ''success'' \<and> has_key d ''task_id'') \<longrightarrow>
      fst (create_suno_task e p t g m) = Inl (SunoClientError (CreateFailed (JObj d)))) \<and>
   (status_code r \<noteq> 202 \<and> status_code r \<noteq> 200 \<longrightarrow>
      poll_body (Inr r) = Raise (SunoClientError (StatusFailed (status_code r) (resp_text r)))) \<and>
   (status_code r = 200 \<and> json_body r = None \<longrightarrow>
      poll_body (Inr r) = Raise (SunoClientError (NotJson (resp_text r)))) \<and>
   (status_code r = 200 \<and> json_body r = Some (JObj body) \<and>
    py_eq_int (dget body ''code'') 200 \<and> dget body ''data'' = JList (JObj c # rest) \<and>
    dget c ''state'' = JStr ''failed'' \<longrightarrow>
      poll_body (Inr r) = Raise (SunoClientError (TaskFailed (JObj c)))) \<and>
   (max_wait < py_int now \<longrightarrow>
      poll_loop e task max_wait interval now n tr =
        Some (Inl (SunoClientError (PollTimedOut max_wait task)), now,
              tr @ [Checked (py_int now)])) \<and>
   (\<not> truthy (dget clip ''audio_url'') \<longrightarrow>
      download_audio e clip filename = (Inl (SunoClientError (NoAudioUrl (JObj clip))), [])) \<and>
   (API_KEY e \<noteq> [] \<and> http_post e (create_request e p t g m) = Inl y \<longrightarrow>
      create_suno_task e p t g m =
        (Inl (RequestException y), [Posted (create_request e p t g m)])) \<and>
   (API_KEY e \<noteq> [] \<and> http_post e (create_request e p t g m) = Inr resp \<and>
    400 \<le> status_code resp \<and> status_code resp < 600 \<longrightarrow>
      create_suno_task e p t g m =
        (Inl (RequestException (HTTPError (status_code resp))),
         [Posted (create_request e p t g m)])) \<and>
   (truthy (dget clip ''audio_url'') \<and> http_get e (dget clip ''audio_url'') = Inl y \<longrightarrow>
      download_audio e clip filename =
        (Inl (RequestException y), [Fetched (dget clip ''audio_url'')])) \<and>
   (truthy (dget clip ''audio_url'') \<and> http_get e (dget clip ''audio_url'') = Inr resp \<and>
    400 \<le> status_code resp \<and> status_code resp < 600 \<longrightarrow>
      download_audio e clip filename =
        (Inl (RequestException (HTTPError (status_code resp))),
         [Fetched (dget clip ''audio_url'')])) \<and>
   (\<not> max_wait < py_int now \<and> poll_body (snd (status_query e task (Suc n))) = Raise x \<longrightarrow>
      poll_loop e task max_wait interval now n tr =
        Some (Inl x, now + fst (status_query e task (Suc n)),
              tr @ [Checked (py_int now), Queried task (Suc n)])) \<and>
   (create_suno_task e p t g m = (Inl x, posted) \<longrightarrow>
      generate_music_from_prompt_en e p t g m max_wait interval = Some (Inl x, posted)) \<and>
   (create_suno_task e p t g m = (Inr task, posted) \<and>
    poll_suno_task e task max_wait interval = Some (Inl x, T, polled) \<longrightarrow>
      generate_music_from_prompt_en e p t g m max_wait interval = Some (Inl x, posted @ polled)) \<and>
   (API_KEY e \<noteq> [] \<and> http_post e (create_request e p t g m) = Inr resp \<and>
    \<not> (400 \<le> status_code resp \<and> status_code resp < 600) \<longrightarrow>
      (\<forall>s. fst (create_suno_task e p t g m) \<noteq> Inl (RequestException (HTTPError s)))) \<and>
   (truthy (dget clip ''audio_url'') \<and> http_get e (dget clip ''audio_url'') = Inr resp \<and>
    \<not> (400 \<le> status_code resp \<and> status_code resp < 600) \<longrightarrow>
      (\<forall>z. fst (download_audio e clip filename) \<noteq> Inl (RequestException z)))"
proof -
  have 1: "API_KEY e = [] \<longrightarrow>
      create_suno_task e p t g m = (Inl (SunoClientError NoApiKey), []) \<and>
      poll_suno_task e task max_wait interval = Some (Inl (SunoClientError NoApiKey), 0, [])"
    by (simp add: create_suno_task_def poll_suno_task_def ensure_api_key_def)
  have 2: "API_KEY e \<noteq> [] \<and> http_post e (create_request e p t g m) = Inr resp \<and>
    \<not> (400 \<le> status_code resp \<and> status_code resp < 600) \<and>
    json_body resp = Some (JObj d) \<and>
    \<not> (dget d ''message'' = JStr ''success'' \<and> has_key d ''task_id'') \<longrightarrow>
      fst (create_suno_task e p t g m) = Inl (SunoClientError (CreateFailed (JObj d)))"
    unfolding create_suno_task_result by (auto simp: read_task_id_def)
  have 3: "status_code r \<noteq> 202 \<and> status_code r \<noteq> 200 \<longrightarrow>
      poll_body (Inr r) = Raise (SunoClientError (StatusFailed (status_code r) (resp_text r)))"
    by (simp add: poll_body_def)
  have 4: "status_code r = 200 \<and> json_body r = None \<longrightarrow>
      poll_body (Inr r) = Raise (SunoClientError (NotJson (resp_text r)))"
    by (simp add: poll_body_def)
  have 5: "status_code r = 200 \<and> json_body r = Some (JObj body) \<and>
    py_eq_int (dget body ''code'') 200 \<and> dget body ''data'' = JList (JObj c # rest) \<and>
    dget c ''state'' = JStr ''failed'' \<longrightarrow>
      poll_body (Inr r) = Raise (SunoClientError (TaskFailed (JObj c)))"
    by (simp add: poll_body_def inspect_body_clip)
  have 6: "max_wait < py_int now \<longrightarrow>
      poll_loop e task max_wait interval now n tr =
        Some (Inl (SunoClientError (PollTimedOut max_wait task)), now,
              tr @ [Checked (py_int now)])"
    by (simp add: poll_loop_timeout)
  have 7: "\<not> truthy (dget clip ''audio_url'') \<longrightarrow>
      download_audio e clip filename = (Inl (SunoClientError (NoAudioUrl (JObj clip))), [])"
    by (simp add: download_audio_missing)
  have 8: "API_KEY e \<noteq> [] \<and> http_post e (create_request e p t g m) = Inl y \<longrightarrow>
      create_suno_task e p t g m =
        (Inl (RequestException y), [Posted (create_request e p t g m)])"
    by (simp add: create_suno_task_transport)
  have 9: "API_KEY e \<noteq> [] \<and> http_post e (create_request e p t g m) = Inr resp \<and>
    400 \<le> status_code resp \<and> status_code resp < 600 \<longrightarrow>
      create_suno_task e p t g m =
        (Inl (RequestException (HTTPError (status_code resp))),
         [Posted (create_request e p t g m)])"
    by (simp add: create_suno_task_status)
  have 10: "truthy (dget clip ''audio_url'') \<and> http_get e (dget clip ''audio_url'') = Inl y \<longrightarrow>
      download_audio e clip filename =
        (Inl (RequestException y), [Fetched (dget clip ''audio_url'')])"
    by (simp add: download_audio_def)
  have 11: "truthy (dget clip ''audio_url'') \<and> http_get e (dget clip ''audio_url'') = Inr resp \<and>
    400 \<le> status_code resp \<and> status_code resp < 600 \<longrightarrow>
      download_audio e clip filename =
        (Inl (RequestException (HTTPError (status_code resp))),
         [Fetched (dget clip ''audio_url'')])"
    by (simp add: download_audio_def raise_for_status_def)
  have 12: "\<not> max_wait < py_int now \<and> poll_body (snd (status_query e task (Suc n))) = Raise x \<longrightarrow>
      poll_loop e task max_wait interval now n tr =
        Some (Inl x, now + fst (status_query e task (Suc n)),
              tr @ [Checked (py_int now), Queried task (Suc n)])"
    by (simp add: poll_loop_raise)
  have 13: "create_suno_task e p t g m = (Inl x, posted) \<longrightarrow>
      generate_music_from_prompt_en e p t g m max_wait interval = Some (Inl x, posted)"
    by (simp add: generate_create_failed)
  have 14: "create_suno_task e p t g m = (Inr task, posted) \<and>
    poll_suno_task e task max_wait interval = Some (Inl x, T, polled) \<longrightarrow>
      generate_music_from_prompt_en e p t g m max_wait interval = Some (Inl x, posted @ polled)"
    by (simp add: generate_poll_failed)
  have 15: "API_KEY e \<noteq> [] \<and> http_post e (create_request e p t g m) = Inr resp \<and>
    \<not> (400 \<le> status_code resp \<and> status_code resp < 600) \<longrightarrow>
      (\<forall>s. fst (create_suno_task e p t g m) \<noteq> Inl (RequestException (HTTPError s)))"
    unfolding create_suno_task_result
    by (cases "json_body resp")
       (auto simp: read_task_id_def split: json.splits if_splits)
  have 16: "truthy (dget clip ''audio_url'') \<and> http_get e (dget clip ''audio_url'') = Inr resp \<and>
    \<not> (400 \<le> status_code resp \<and> status_code resp < 600) \<longrightarrow>
      (\<forall>z. fst (download_audio e clip filename) \<noteq> Inl (RequestException z))"
    by (auto simp: download_audio_def raise_for_status_def Let_def)
  show ?thesis
    using 1 2 3 4 5 6 7 8 9 10 11 12 13 14 15 16 by blast
qed


lemma download_env_fields:
  "API_KEY (download_env get) = ''key''"
  "http_get (download_env get) u = get u"
  "disk_ok (download_env get) pth = True"
  by (simp_all add: download_env_def scenario_env_fields)

theorem fatal_errors_by_type_witness:
  "(create_suno_task ((scenario_env 0) \<lparr> API_KEY := [] \<rparr>) ''calm piano'' ''T'' None False =
      (Inl (SunoClientError NoApiKey), []) \<and>
    poll_suno_task ((scenario_env 0) \<lparr> API_KEY := [] \<rparr>) (JStr ''abc123'') 30 15 =
      Some (Inl (SunoClientError NoApiKey), 0, [])) \<and>
   fst (create_suno_task
          (submission_env (Inr (ok_response (JObj [(''message'', JStr ''quota exceeded'')]))))
          ''calm piano'' ''T'' None False) =
     Inl (SunoClientError (CreateFailed (JObj [(''message'', JStr ''quota exceeded'')]))) \<and>
   poll_body (Inr (pending_response \<lparr> status_code := 500, resp_text := ''oops'' \<rparr>)) =
     Raise (SunoClientError (StatusFailed 500 ''oops'')) \<and>
   poll_body (Inr (pending_response \<lparr> status_code := 200, resp_text := ''<html>'' \<rparr>)) =
     Raise (SunoClientError (NotJson ''<html>'')) \<and>
   poll_body (Inr (clips_response [(''state'', JStr ''failed'')])) =
     Raise (SunoClientError (TaskFailed (JObj [(''state'', JStr ''failed'')]))) \<and>
   poll_loop (pending_env (\<lambda>n. 0)) (JStr ''abc123'') 30 15 31 2 [] =
     Some (Inl (SunoClientError (PollTimedOut 30 (JStr ''abc123''))), 31, [Checked 31]) \<and>
   download_audio (scenario_env 0) [(''state'', JStr ''succeeded'')] ''T.mp3'' =
     (Inl (SunoClientError (NoAudioUrl (JObj [(''state'', JStr ''succeeded'')]))), []) \<and>
   create_suno_task (submission_env (Inl ConnectionError))
       ''calm piano'' ''T'' None False =
     (Inl (RequestException ConnectionError),
      [Posted (create_request (submission_env (Inl ConnectionError))
                 ''calm piano'' ''T'' None False)]) \<and>
   create_suno_task (submission_env (Inr (pending_response \<lparr> status_code := 503 \<rparr>)))
       ''calm piano'' ''T'' None False =
     (Inl (RequestException (HTTPError 503)),
      [Posted (create_request (submission_env (Inr (pending_response \<lparr> status_code := 503 \<rparr>)))
                 ''calm piano'' ''T'' None False)]) \<and>
   download_audio (download_env (\<lambda>u. Inl Timeout)) scenario_clip ''T.mp3'' =
     (Inl (RequestException Timeout), [Fetched (JStr ''http://x/a.mp3'')]) \<and>
   download_audio (download_env (\<lambda>u. Inr (pending_response \<lparr> status_code := 404 \<rparr>)))
       scenario_clip ''T.mp3'' =
     (Inl (RequestException (HTTPError 404)), [Fetched (JStr ''http://x/a.mp3'')]) \<and>
   poll_loop (constant_env (Inr (pending_response \<lparr> status_code := 500, resp_text := ''oops'' \<rparr>)))
       (JStr ''abc123'') 30 15 0 0 [] =
     Some (Inl (SunoClientError (StatusFailed 500 ''oops'')), 1,
           [Checked 0, Queried (JStr ''abc123'') 1]) \<and>
   generate_music_from_prompt_en (submission_env (Inl ConnectionError))
       ''calm piano'' ''T'' None False 30 15 =
     Some (Inl (RequestException ConnectionError),
           [Posted (create_request (submission_env (Inl ConnectionError))
                      ''calm piano'' ''T'' None False)]) \<and>
   generate_music_from_prompt_en
       (constant_env (Inr (pending_response \<lparr> status_code := 500, resp_text := ''oops'' \<rparr>)))
       ''calm piano'' ''T'' None False 30 15 =
     Some (Inl (SunoClientError (StatusFailed 500 ''oops'')),
           [Posted (create_request
              (constant_env (Inr (pending_response \<lparr> status_code := 500, resp_text := ''oops'' \<rparr>)))
              ''calm piano'' ''T'' None False),
            Checked 0, Queried (JStr ''abc123'') 1]) \<and>
   (\<forall>s. fst (create_suno_task (scenario_env 0) ''calm piano'' ''T'' None False) \<noteq>
      Inl (RequestException (HTTPError s))) \<and>
   (\<forall>z. fst (download_audio (download_env answers_300) scenario_clip ''T.mp3'') \<noteq>
      Inl (RequestException z))"
proof -
  let ?NK = "(scenario_env 0) \<lparr> API_KEY := [] \<rparr>"
  let ?RJ = "submission_env (Inr (ok_response (JObj [(''message'', JStr ''quota exceeded'')])))"
  let ?r500 = "pending_response \<lparr> status_code := 500, resp_text := ''oops'' \<rparr>"
  let ?CE = "submission_env (Inl ConnectionError)"
  let ?S503 = "submission_env (Inr (pending_response \<lparr> status_code := 503 \<rparr>))"
  let ?DT = "download_env (\<lambda>u. Inl Timeout)"
  let ?D404 = "download_env (\<lambda>u. Inr (pending_response \<lparr> status_code := 404 \<rparr>))"
  let ?K500 = "constant_env (Inr ?r500)"
  note T = fatal_errors_by_type
  have 1: "create_suno_task ?NK ''calm piano'' ''T'' None False =
      (Inl (SunoClientError NoApiKey), []) \<and>
    poll_suno_task ?NK (JStr ''abc123'') 30 15 = Some (Inl (SunoClientError NoApiKey), 0, [])"
    using T [where e = ?NK and p = "''calm piano''" and t = "''T''" and g = None and m = False
               and task = "JStr ''abc123''" and max_wait = 30 and interval = 15]
    by simp
  have 2: "fst (create_suno_task ?RJ ''calm piano'' ''T'' None False) =
     Inl (SunoClientError (CreateFailed (JObj [(''message'', JStr ''quota exceeded'')])))"
    using T [where e = ?RJ and p = "''calm piano''" and t = "''T''" and g = None and m = False
               and resp = "ok_response (JObj [(''message'', JStr ''quota exceeded'')])"
               and d = "[(''message'', JStr ''quota exceeded'')]"]
    by (simp add: submission_env_fields ok_response_def dget_def has_key_def)
  have 3: "poll_body (Inr ?r500) = Raise (SunoClientError (StatusFailed 500 ''oops''))"
    using T [where r = ?r500] by (simp add: pending_response_def)
  have 4: "poll_body (Inr (pending_response \<lparr> status_code := 200, resp_text := ''<html>'' \<rparr>)) =
     Raise (SunoClientError (NotJson ''<html>''))"
    using T [where r = "pending_response \<lparr> status_code := 200, resp_text := ''<html>'' \<rparr>"]
    by (simp add: pending_response_def)
  have 5: "poll_body (Inr (clips_response [(''state'', JStr ''failed'')])) =
     Raise (SunoClientError (TaskFailed (JObj [(''state'', JStr ''failed'')])))"
    using T [where r = "clips_response [(''state'', JStr ''failed'')]"
               and body = "[(''code'', JInt 200), (''data'', JList [JObj [(''state'', JStr ''failed'')]])]"
               and c = "[(''state'', JStr ''failed'')]" and rest = "[]"]
    by (simp add: clips_response_def ok_response_def dget_def)
  have 6: "poll_loop (pending_env (\<lambda>n. 0)) (JStr ''abc123'') 30 15 31 2 [] =
     Some (Inl (SunoClientError (PollTimedOut 30 (JStr ''abc123''))), 31, [Checked 31])"
    using T [where e = "pending_env (\<lambda>n. 0)" and task = "JStr ''abc123''" and max_wait = 30
               and interval = 15 and now = 31 and n = 2 and tr = "[]"]
    by (simp add: py_int_def)
  have 7: "download_audio (scenario_env 0) [(''state'', JStr ''succeeded'')] ''T.mp3'' =
     (Inl (SunoClientError (NoAudioUrl (JObj [(''state'', JStr ''succeeded'')]))), [])"
    using T [where e = "scenario_env 0" and clip = "[(''state'', JStr ''succeeded'')]"
               and filename = "''T.mp3''"]
    by (simp add: dget_def)
  have 8: "create_suno_task ?CE ''calm piano'' ''T'' None False =
     (Inl (RequestException ConnectionError),
      [Posted (create_request ?CE ''calm piano'' ''T'' None False)])"
    using T [where e = ?CE and p = "''calm piano''" and t = "''T''" and g = None and m = False
               and y = ConnectionError]
    by (simp add: submission_env_fields)
  have 9: "create_suno_task ?S503 ''calm piano'' ''T'' None False =
     (Inl (RequestException (HTTPError 503)),
      [Posted (create_request ?S503 ''calm piano'' ''T'' None False)])"
    using T [where e = ?S503 and p = "''calm piano''" and t = "''T''" and g = None and m = False
               and resp = "pending_response \<lparr> status_code := 503 \<rparr>"]
    by (simp add: submission_env_fields pending_response_def)
  have 10: "download_audio ?DT scenario_clip ''T.mp3'' =
     (Inl (RequestException Timeout), [Fetched (JStr ''http://x/a.mp3'')])"
    using T [where e = ?DT and clip = scenario_clip and filename = "''T.mp3''"
               and y = Timeout]
    by (simp add: download_env_fields scenario_clip_def dget_def)
  have 11: "download_audio ?D404 scenario_clip ''T.mp3'' =
     (Inl (RequestException (HTTPError 404)), [Fetched (JStr ''http://x/a.mp3'')])"
    using T [where e = ?D404 and clip = scenario_clip and filename = "''T.mp3''"
               and resp = "pending_response \<lparr> status_code := 404 \<rparr>"]
    by (simp add: download_env_fields scenario_clip_def dget_def pending_response_def)
  have 12: "poll_loop ?K500 (JStr ''abc123'') 30 15 0 0 [] =
     Some (Inl (SunoClientError (StatusFailed 500 ''oops'')), 1,
           [Checked 0, Queried (JStr ''abc123'') 1])"
    using T [where e = ?K500 and task = "JStr ''abc123''" and max_wait = 30
               and interval = 15 and now = 0 and n = 0 and tr = "[]"
               and x = "SunoClientError (StatusFailed 500 ''oops'')"] 3
    by (simp add: py_int_def constant_env_fields)
  have 13: "generate_music_from_prompt_en ?CE ''calm piano'' ''T'' None False 30 15 =
     Some (Inl (RequestException ConnectionError),
           [Posted (create_request ?CE ''calm piano'' ''T'' None False)])"
    using T [where e = ?CE and p = "''calm piano''" and t = "''T''" and g = None and m = False
               and x = "RequestException ConnectionError" and max_wait = 30 and interval = 15
               and posted = "[Posted (create_request ?CE ''calm piano'' ''T'' None False)]"] 8
    by simp
  have c14: "create_suno_task ?K500 ''calm piano'' ''T'' None False =
      (Inr (JStr ''abc123''), [Posted (create_request ?K500 ''calm piano'' ''T'' None False)])"
    by code_simp
  have p14: "poll_suno_task ?K500 (JStr ''abc123'') 30 15 =
      Some (Inl (SunoClientError (StatusFailed 500 ''oops'')), 1,
            [Checked 0, Queried (JStr ''abc123'') 1])"
    using 12 by (simp add: poll_suno_task_with_key constant_env_fields)
  have 14: "generate_music_from_prompt_en ?K500 ''calm piano'' ''T'' None False 30 15 =
     Some (Inl (SunoClientError (StatusFailed 500 ''oops'')),
           [Posted (create_request ?K500 ''calm piano'' ''T'' None False),
            Checked 0, Queried (JStr ''abc123'') 1])"
    using T [where e = ?K500 and p = "''calm piano''" and t = "''T''" and g = None and m = False
               and x = "SunoClientError (StatusFailed 500 ''oops'')" and max_wait = 30
               and interval = 15 and task = "JStr ''abc123''" and T = 1
               and posted = "[Posted (create_request ?K500 ''calm piano'' ''T'' None False)]"
               and polled = "[Checked 0, Queried (JStr ''abc123'') 1]"] c14 p14
    by simp
  have 15: "\<forall>s. fst (create_suno_task (scenario_env 0) ''calm piano'' ''T'' None False) \<noteq>
      Inl (RequestException (HTTPError s))"
    using T [where e = "scenario_env 0" and p = "''calm piano''" and t = "''T''" and g = None
               and m = False
               and resp = "ok_response (JObj [(''message'', JStr ''success''),
                                               (''task_id'', JStr ''abc123'')])"]
    by (simp add: scenario_env_fields ok_response_def)
  have 16: "\<forall>z. fst (download_audio (download_env answers_300) scenario_clip ''T.mp3'') \<noteq>
      Inl (RequestException z)"
    using T [where e = "download_env answers_300" and clip = scenario_clip
               and filename = "''T.mp3''"
               and resp = "(ok_response JNull) \<lparr> status_code := 300 \<rparr>"]
    by (simp add: download_env_fields answers_300_def scenario_clip_def dget_def ok_response_def)
  show ?thesis
    using 1 2 3 4 5 6 7 8 9 10 11 12 13 14 15 16 by blast
qed

text \<open>
  Claim C9 as stated fails for a non-2xx status outside 400 to 599. A submission answered
  with status 300 and an acknowledging body raises nothing and returns the handle; an
  audio download answered with status 300 raises nothing, and the answer's body is
  written as the audio file.
\<close>

theorem status_300_raises_nothing_counterexample:
  "\<not> (200 \<le> (300::int) \<and> (300::int) < 300) \<and>
   http_post
     (submission_env (Inr ((ok_response
        (JObj [(''message'', JStr ''success''), (''task_id'', JStr ''abc123'')]))
        \<lparr> status_code := 300 \<rparr>)))
     (create_request
        (submission_env (Inr ((ok_response
           (JObj [(''message'', JStr ''success''), (''task_id'', JStr ''abc123'')]))
           \<lparr> status_code := 300 \<rparr>)))
        ''calm piano'' ''T'' None False) =
     Inr \<lparr> status_code = 300, resp_text = [], content = [],
           json_body = Some (JObj [(''message'', JStr ''success''),
                                   (''task_id'', JStr ''abc123'')]) \<rparr> \<and>
   create_suno_task
     (submission_env (Inr ((ok_response
        (JObj [(''message'', JStr ''success''), (''task_id'', JStr ''abc123'')]))
        \<lparr> status_code := 300 \<rparr>)))
     ''calm piano'' ''T'' None False =
     (Inr (JStr ''abc123''),
      [Posted (create_request
         (submission_env (Inr ((ok_response
            (JObj [(''message'', JStr ''success''), (''task_id'', JStr ''abc123'')]))
            \<lparr> status_code := 300 \<rparr>)))
         ''calm piano'' ''T'' None False)]) \<and>
   http_get (download_env answers_300) (dget scenario_clip ''audio_url'') =
     Inr \<lparr> status_code = 300, resp_text = [], content = [], json_body = Some JNull \<rparr> \<and>
   download_audio (download_env answers_300) scenario_clip ''T.mp3'' =
     (Inr \<lparr> audio_path = OUTPUT_DIR ''T.mp3'', cover_path = None,
            song_title = JStr ''T'', song_tags = JNull, duration = JInt 30,
            clip_id = JStr ''c1'' \<rparr>,
      [Fetched (JStr ''http://x/a.mp3''), Wrote (OUTPUT_DIR ''T.mp3'') []])"
  by code_simp

section \<open>Every way the polling loop ends\<close>

lemma inspect_body_raises:
  "inspect_body data = Raise x \<Longrightarrow>
   x = AttributeError \<or> x = TypeError \<or> x = KeyError \<or> x = IndexError \<or>
   (\<exists>clip. x = SunoClientError (TaskFailed clip))"
  by (cases data)
     (auto simp: inspect_body_def Let_def
           split: if_splits sum.splits json.splits
           elim!: subscript0.elims)

lemma poll_body_raises:
  "poll_body reply = Raise x \<Longrightarrow>
   x = AttributeError \<or> x = TypeError \<or> x = KeyError \<or> x = IndexError \<or>
   (\<exists>clip. x = SunoClientError (TaskFailed clip)) \<or>
   (\<exists>s b. x = SunoClientError (StatusFailed s b)) \<or>
   (\<exists>b. x = SunoClientError (NotJson b))"
  by (auto simp: poll_body_def split: sum.splits if_splits option.splits
           dest: inspect_body_raises)

lemma inspect_body_returns:
  "inspect_body data = Return clip \<Longrightarrow> dget clip ''state'' = JStr ''succeeded''"
  by (cases data)
     (auto simp: inspect_body_def Let_def split: if_splits sum.splits json.splits)

lemma poll_body_returns:
  "poll_body reply = Return clip \<Longrightarrow> dget clip ''state'' = JStr ''succeeded''"
  by (auto simp: poll_body_def split: sum.splits if_splits option.splits
           dest: inspect_body_returns)

lemma poll_loop_ends:
  assumes "poll_loop e task max_wait interval now n tr = Some y"
  shows "(\<exists>T pre. y = (Inl (SunoClientError (PollTimedOut max_wait task)), T, pre @ [Checked (py_int T)]) \<and>
            max_wait < py_int T) \<or>
         (\<exists>k clip T tr'. y = (Inr clip, T, tr') \<and>
            poll_body (snd (status_query e task k)) = Return clip) \<or>
         (\<exists>k x T tr'. y = (Inl x, T, tr') \<and>
            poll_body (snd (status_query e task k)) = Raise x) \<or>
         (\<exists>T tr'. y = (Inl ValueError, T, tr') \<and> interval < 0)"
  using assms
proof (induction e task max_wait interval now n tr y rule: poll_loop.raw_induct)
  case (1 loop e task max_wait interval now n tr y)
  show ?case
  proof (cases "max_wait < py_int now")
    case True
    with 1(2) show ?thesis by (auto simp: Let_def)
  next
    case False
    show ?thesis
    proof (cases "poll_body (snd (status_query e task (Suc n)))")
      case (Return clip)
      with False 1(2) show ?thesis by (auto simp: Let_def)
    next
      case (Raise x)
      with False 1(2) show ?thesis by (auto simp: Let_def)
    next
      case Sleep
      show ?thesis
      proof (cases "interval < 0")
        case True
        with Sleep False 1(2) show ?thesis by (auto simp: Let_def)
      next
        case nonneg: False
        with Sleep False 1(2) have
          "loop e task max_wait interval (now + fst (status_query e task (Suc n)) + of_int interval)
             (Suc n) (tr @ [Checked (py_int now), Queried task (Suc n), Slept interval]) = Some y"
          by (simp add: Let_def)
        moreover have
          "poll_loop e task max_wait interval (now + fst (status_query e task (Suc n)) + of_int interval)
             (Suc n) (tr @ [Checked (py_int now), Queried task (Suc n), Slept interval]) = Some y"
          using poll_loop_sleep[OF False Sleep nonneg, of tr] 1(3) by simp
        ultimately show ?thesis by (rule 1(1))
      qed
    qed
  qed
qed (rule assms)


lemma py_int_passed:
  "\<not> max_wait < py_int now \<Longrightarrow> now < of_int max_wait + 1"
  by (auto simp: py_int_def not_less split: if_splits) linarith+

lemma poll_loop_terminates:
  assumes "0 < \<delta>"
    and "interval < 0 \<or> (\<forall>k. \<delta> \<le> fst (status_query e task k) + of_int interval)"
  shows "\<exists>y. poll_loop e task max_wait interval now n tr = Some y"
proof (induction "nat \<lceil>(of_int max_wait + 1 - now) / \<delta>\<rceil>" arbitrary: now n tr rule: less_induct)
  case less
  show ?case
  proof (cases "max_wait < py_int now")
    case True
    then show ?thesis by (simp add: poll_loop_timeout)
  next
    case False
    show ?thesis
    proof (cases "poll_body (snd (status_query e task (Suc n)))")
      case (Return clip)
      with False show ?thesis by (simp add: poll_loop_return)
    next
      case (Raise x)
      with False show ?thesis by (simp add: poll_loop_raise)
    next
      case Sleep
      show ?thesis
      proof (cases "interval < 0")
        case True
        with Sleep False show ?thesis by (simp add: poll_loop_bad_sleep)
      next
        case nonneg: False
        let ?now' = "now + fst (status_query e task (Suc n)) + of_int interval"
        have adv: "now + \<delta> \<le> ?now'"
          using assms(2) nonneg by (auto simp: algebra_simps)
        have pos: "0 < (of_int max_wait + 1 - now) / \<delta>"
          using py_int_passed[OF False] assms(1) by simp
        have "(of_int max_wait + 1 - ?now') / \<delta> \<le> (of_int max_wait + 1 - now - \<delta>) / \<delta>"
          using adv assms(1) by (simp add: divide_right_mono)
        also have "\<dots> = (of_int max_wait + 1 - now) / \<delta> - 1"
          using assms(1) by (simp add: diff_divide_distrib)
        finally have "\<lceil>(of_int max_wait + 1 - ?now') / \<delta>\<rceil> \<le> \<lceil>(of_int max_wait + 1 - now) / \<delta>\<rceil> - 1"
          using ceiling_mono[of "(of_int max_wait + 1 - ?now') / \<delta>" "(of_int max_wait + 1 - now) / \<delta> - 1"]
          by simp
        moreover have "0 < \<lceil>(of_int max_wait + 1 - now) / \<delta>\<rceil>"
          using pos by simp
        ultimately have "nat \<lceil>(of_int max_wait + 1 - ?now') / \<delta>\<rceil> < nat \<lceil>(of_int max_wait + 1 - now) / \<delta>\<rceil>"
          by linarith
        from less[OF this] show ?thesis
          using poll_loop_sleep[OF False Sleep nonneg] by simp
      qed
    qed
  qed
qed

lemma poll_loop_trace:
  assumes "poll_loop e task max_wait interval now n tr = Some y"
  shows "\<exists>suffix. snd (snd y) = tr @ suffix \<and> check_then_wait suffix"
  using assms
proof (induction e task max_wait interval now n tr y rule: poll_loop.raw_induct)
  case (1 loop e task max_wait interval now n tr y)
  show ?case
  proof (cases "max_wait < py_int now")
    case True
    with 1(2) show ?thesis by (auto simp: Let_def)
  next
    case False
    show ?thesis
    proof (cases "poll_body (snd (status_query e task (Suc n)))")
      case (Return clip)
      with False 1(2) show ?thesis by (auto simp: Let_def)
    next
      case (Raise x)
      with False 1(2) show ?thesis by (auto simp: Let_def)
    next
      case Sleep
      show ?thesis
      proof (cases "interval < 0")
        case True
        with Sleep False 1(2) show ?thesis by (auto simp: Let_def)
      next
        case nonneg: False
        let ?tr = "tr @ [Checked (py_int now), Queried task (Suc n), Slept interval]"
        from Sleep False nonneg 1(2) have
          "loop e task max_wait interval (now + fst (status_query e task (Suc n)) + of_int interval)
             (Suc n) ?tr = Some y"
          by (simp add: Let_def)
        moreover have
          "poll_loop e task max_wait interval (now + fst (status_query e task (Suc n)) + of_int interval)
             (Suc n) ?tr = Some y"
          using poll_loop_sleep[OF False Sleep nonneg, of tr] 1(3) by simp
        ultimately have "\<exists>suffix. snd (snd y) = ?tr @ suffix \<and> check_then_wait suffix"
          by (rule 1(1))
        then obtain suffix where "snd (snd y) = ?tr @ suffix" "check_then_wait suffix" by blast
        then have "snd (snd y) = tr @ ([Checked (py_int now), Queried task (Suc n), Slept interval] @ suffix) \<and>
            check_then_wait ([Checked (py_int now), Queried task (Suc n), Slept interval] @ suffix)"
          by simp
        then show ?thesis by blast
      qed
    qed
  qed
qed (rule assms)

lemma poll_loop_end_time:
  assumes "poll_loop e task max_wait interval now n tr = Some y"
    and "0 \<le> interval"
    and "\<forall>k. 0 \<le> fst (status_query e task k) \<and> fst (status_query e task k) \<le> R"
    and "now < of_int max_wait + 1 + of_int interval + R"
  shows "now \<le> fst (snd y) \<and> fst (snd y) < of_int max_wait + 1 + of_int interval + R"
  using assms
proof (induction e task max_wait interval now n tr y rule: poll_loop.raw_induct)
  case (1 loop e task max_wait interval now n tr y)
  have rtt: "0 \<le> fst (status_query e task (Suc n))" "fst (status_query e task (Suc n)) \<le> R"
    using 1(5) by simp_all
  show ?case
  proof (cases "max_wait < py_int now")
    case True
    with 1(2,6) show ?thesis by (auto simp: Let_def)
  next
    case False
    note lt = py_int_passed[OF False]
    show ?thesis
    proof (cases "poll_body (snd (status_query e task (Suc n)))")
      case (Return clip)
      with False 1(2) rtt lt 1(4) show ?thesis by (auto simp: Let_def)
    next
      case (Raise x)
      with False 1(2) rtt lt 1(4) show ?thesis by (auto simp: Let_def)
    next
      case Sleep
      have nonneg: "\<not> interval < 0" using 1(4) by simp
      let ?now = "now + fst (status_query e task (Suc n)) + of_int interval"
      let ?tr = "tr @ [Checked (py_int now), Queried task (Suc n), Slept interval]"
      from Sleep False nonneg 1(2) have a: "loop e task max_wait interval ?now (Suc n) ?tr = Some y"
        by (simp add: Let_def)
      have b: "poll_loop e task max_wait interval ?now (Suc n) ?tr = Some y"
        using poll_loop_sleep[OF False Sleep nonneg, of tr] 1(3) by simp
      have c: "?now < of_int max_wait + 1 + of_int interval + R"
        using lt rtt by simp
      have "?now \<le> fst (snd y) \<and> fst (snd y) < of_int max_wait + 1 + of_int interval + R"
        using 1(1)[OF a b 1(4) 1(5) c] .
      moreover have "now \<le> ?now" using rtt 1(4) by simp
      ultimately show ?thesis by simp
    qed
  qed
qed (rule assms)+


lemma poll_loop_all_pending:
  assumes "\<forall>k. poll_body (snd (status_query e task k)) = Sleep"
    and "0 \<le> interval" and "0 < \<delta>"
    and "\<forall>k. \<delta> \<le> fst (status_query e task k) + of_int interval"
  shows "\<exists>T pre. poll_loop e task max_wait interval now n tr =
           Some (Inl (SunoClientError (PollTimedOut max_wait task)), T, pre @ [Checked (py_int T)]) \<and>
         max_wait < py_int T"
proof -
  obtain y where y: "poll_loop e task max_wait interval now n tr = Some y"
    using poll_loop_terminates[of \<delta> interval e task max_wait now n tr] assms(3,4) by blast
  from poll_loop_ends[OF y] assms(1,2) show ?thesis
    using y by auto
qed

lemma elapsed_past_deadline:
  "0 \<le> max_wait \<Longrightarrow> max_wait < py_int T \<Longrightarrow> of_int max_wait + 1 \<le> T"
  by (auto simp: py_int_def split: if_splits) linarith+

section \<open>Termination and the order of check, query and sleep\<close>

text \<open>
  Claim C2, as amended. The polling call always returns, provided time passes: a
  negative interval ends the call at the first sleep, and otherwise it is enough that a
  query and the sleep after it take at least some fixed positive time together. With a
  configured key, a deadline and an interval that are not negative, and queries that take
  between 0 and \<open>R\<close> seconds, the call returns a clip in state \<^verbatim>\<open>succeeded\<close>, raises
  what the loop body raised, or raises the timeout error; every pass checks the deadline,
  then queries, then sleeps. The call ends less than one interval plus one round trip
  plus one second after the deadline, the second because the elapsed time is truncated to
  whole seconds before it is compared; a timeout is raised no earlier than one second
  after the deadline. When every poll is still pending the call ends with the timeout.
\<close>

theorem polling_terminates_check_then_wait:
  "(0 < \<delta> \<and> (interval < 0 \<or> (\<forall>k. \<delta> \<le> fst (status_query e task k) + of_int interval)) \<longrightarrow>
      (\<exists>y. poll_suno_task e task max_wait interval = Some y)) \<and>
   (API_KEY e \<noteq> [] \<and> 0 \<le> max_wait \<and> 0 \<le> interval \<and> 0 < \<delta> \<and>
    (\<forall>k. 0 \<le> fst (status_query e task k) \<and> fst (status_query e task k) \<le> R \<and>
         \<delta> \<le> fst (status_query e task k) + of_int interval) \<longrightarrow>
      (\<exists>r T tr. poll_suno_task e task max_wait interval = Some (r, T, tr) \<and>
         ((r = Inl (SunoClientError (PollTimedOut max_wait task)) \<and>
           max_wait < py_int T \<and> of_int max_wait + 1 \<le> T) \<or>
          (\<exists>clip. r = Inr clip \<and> dget clip ''state'' = JStr ''succeeded'') \<or>
          (\<exists>x k. r = Inl x \<and> poll_body (snd (status_query e task k)) = Raise x)) \<and>
         check_then_wait tr \<and>
         T < of_int max_wait + 1 + of_int interval + R \<and>
         ((\<forall>k. poll_body (snd (status_query e task k)) = Sleep) \<longrightarrow>
            r = Inl (SunoClientError (PollTimedOut max_wait task)))))"
proof (intro conjI impI)
  assume "0 < \<delta> \<and> (interval < 0 \<or> (\<forall>k. \<delta> \<le> fst (status_query e task k) + of_int interval))"
  then show "\<exists>y. poll_suno_task e task max_wait interval = Some y"
    using poll_loop_terminates[of \<delta> interval e task max_wait 0 0 "[]"]
    by (auto simp: poll_suno_task_def split: sum.split)
next
  assume a: "API_KEY e \<noteq> [] \<and> 0 \<le> max_wait \<and> 0 \<le> interval \<and> 0 < \<delta> \<and>
    (\<forall>k. 0 \<le> fst (status_query e task k) \<and> fst (status_query e task k) \<le> R \<and>
         \<delta> \<le> fst (status_query e task k) + of_int interval)"
  then have loop: "poll_suno_task e task max_wait interval = poll_loop e task max_wait interval 0 0 []"
    by (simp add: poll_suno_task_with_key)
  obtain y where y: "poll_loop e task max_wait interval 0 0 [] = Some y"
    using poll_loop_terminates[of \<delta> interval e task max_wait 0 0 "[]"] a by blast
  obtain r T tr where yr: "y = (r, T, tr)"
    by (cases y) auto
  have R0: "0 \<le> R"
    using a by (meson order_trans)
  have ends: "(r = Inl (SunoClientError (PollTimedOut max_wait task)) \<and>
           max_wait < py_int T \<and> of_int max_wait + 1 \<le> T) \<or>
          (\<exists>clip. r = Inr clip \<and> dget clip ''state'' = JStr ''succeeded'') \<or>
          (\<exists>x k. r = Inl x \<and> poll_body (snd (status_query e task k)) = Raise x)"
    using poll_loop_ends[OF y] yr a
    by (auto dest: poll_body_returns elapsed_past_deadline)
  have order: "check_then_wait tr"
    using poll_loop_trace[OF y] yr by simp
  have time: "T < of_int max_wait + 1 + of_int interval + R"
    using poll_loop_end_time[OF y, of R] yr a R0 by simp
  have pending: "(\<forall>k. poll_body (snd (status_query e task k)) = Sleep) \<longrightarrow>
            r = Inl (SunoClientError (PollTimedOut max_wait task))"
    using poll_loop_ends[OF y] yr a by auto
  have res: "poll_suno_task e task max_wait interval = Some (r, T, tr)"
    using loop y yr by simp
  show "\<exists>r T tr. poll_suno_task e task max_wait interval = Some (r, T, tr) \<and>
         ((r = Inl (SunoClientError (PollTimedOut max_wait task)) \<and>
           max_wait < py_int T \<and> of_int max_wait + 1 \<le> T) \<or>
          (\<exists>clip. r = Inr clip \<and> dget clip ''state'' = JStr ''succeeded'') \<or>
          (\<exists>x k. r = Inl x \<and> poll_body (snd (status_query e task k)) = Raise x)) \<and>
         check_then_wait tr \<and>
         T < of_int max_wait + 1 + of_int interval + R \<and>
         ((\<forall>k. poll_body (snd (status_query e task k)) = Sleep) \<longrightarrow>
            r = Inl (SunoClientError (PollTimedOut max_wait task)))"
    using res ends order time pending
    by (intro exI[of _ r] exI[of _ T] exI[of _ tr] conjI)
qed


lemma pending_env_fields:
  "API_KEY (pending_env rtt) = ''key''"
  "status_query (pending_env rtt) task n = (rtt n, Inr pending_response)"
  by (simp_all add: pending_env_def service_fields)

lemma poll_body_pending: "poll_body (Inr pending_response) = Sleep"
  by (simp add: poll_body_def pending_response_def)

theorem polling_terminates_check_then_wait_witness:
  "poll_suno_task (pending_env (steady 0)) (JStr ''abc123'') 30 15 =
     Some (Inl (SunoClientError (PollTimedOut 30 (JStr ''abc123''))), 45,
           [Checked 0, Queried (JStr ''abc123'') 1, Slept 15,
            Checked 15, Queried (JStr ''abc123'') 2, Slept 15,
            Checked 30, Queried (JStr ''abc123'') 3, Slept 15,
            Checked 45]) \<and>
   check_then_wait
           [Checked 0, Queried (JStr ''abc123'') 1, Slept 15,
            Checked 15, Queried (JStr ''abc123'') 2, Slept 15,
            Checked 30, Queried (JStr ''abc123'') 3, Slept 15,
            Checked 45] \<and>
   (30::rat) + 1 \<le> 45 \<and> (45::rat) < 30 + 1 + 15 + 0"
proof -
  have run: "poll_suno_task (pending_env (steady 0)) (JStr ''abc123'') 30 15 =
     Some (Inl (SunoClientError (PollTimedOut 30 (JStr ''abc123''))), 45,
           [Checked 0, Queried (JStr ''abc123'') 1, Slept 15,
            Checked 15, Queried (JStr ''abc123'') 2, Slept 15,
            Checked 30, Queried (JStr ''abc123'') 3, Slept 15,
            Checked 45])"
    by code_simp
  have "\<exists>r T tr. poll_suno_task (pending_env (steady 0)) (JStr ''abc123'') 30 15 = Some (r, T, tr) \<and>
         ((r = Inl (SunoClientError (PollTimedOut 30 (JStr ''abc123''))) \<and>
           30 < py_int T \<and> of_int 30 + 1 \<le> T) \<or>
          (\<exists>clip. r = Inr clip \<and> dget clip ''state'' = JStr ''succeeded'') \<or>
          (\<exists>x k. r = Inl x \<and>
             poll_body (snd (status_query (pending_env (steady 0)) (JStr ''abc123'') k)) = Raise x)) \<and>
         check_then_wait tr \<and>
         T < of_int 30 + 1 + of_int 15 + 0 \<and>
         ((\<forall>k. poll_body (snd (status_query (pending_env (steady 0)) (JStr ''abc123'') k)) = Sleep) \<longrightarrow>
            r = Inl (SunoClientError (PollTimedOut 30 (JStr ''abc123''))))"
    using polling_terminates_check_then_wait
      [where e = "pending_env (steady 0)" and task = "JStr ''abc123''" and max_wait = 30
         and interval = 15 and \<delta> = 15 and R = 0]
    by (simp add: pending_env_fields steady_def)
  with run show ?thesis
    by (auto simp: pending_env_fields poll_body_pending)
qed

text \<open>
  Claim C2 as stated fails in its bound: with deadline 30, interval 15, every poll
  pending and round trips of 0.5, 0.4 and 0 seconds, the timeout is raised 45.9 seconds
  after the start, more than one interval plus one round trip past the deadline.
\<close>

theorem polling_overshoot_counterexample:
  "poll_suno_task (pending_env uneven) (JStr ''abc123'') 30 15 =
     Some (Inl (SunoClientError (PollTimedOut 30 (JStr ''abc123''))), 459 / 10,
           [Checked 0, Queried (JStr ''abc123'') 1, Slept 15,
            Checked 15, Queried (JStr ''abc123'') 2, Slept 15,
            Checked 30, Queried (JStr ''abc123'') 3, Slept 15,
            Checked 45]) \<and>
   uneven 1 = 1 / 2 \<and> uneven 2 = 2 / 5 \<and> uneven 3 = 0 \<and>
   \<not> (459 / 10 \<le> (30::rat) + 15 + 1 / 2)"
  by code_simp

section \<open>What the timeout error carries\<close>

text \<open>
  Claim C8, as amended. When the deadline is exceeded the error raised carries the
  configured \<^verbatim>\<open>max_wait\<close> and the job handle, and nothing else: a timeout error that leaves
  the loop names exactly these two, it was raised at a deadline check whose truncated
  elapsed time exceeds \<^verbatim>\<open>max_wait\<close>, and that elapsed time is not part of the error.
\<close>

theorem timeout_error_carries_limit_and_handle:
  "(max_wait < py_int now \<longrightarrow>
      poll_loop e task max_wait interval now n tr =
        Some (Inl (SunoClientError (PollTimedOut max_wait task)), now,
              tr @ [Checked (py_int now)])) \<and>
   (poll_loop e task max_wait interval now n tr =
      Some (Inl (SunoClientError (PollTimedOut limit handle)), T, tr') \<longrightarrow>
      limit = max_wait \<and> handle = task \<and> max_wait < py_int T \<and>
      (\<exists>pre. tr' = pre @ [Checked (py_int T)]))"
proof -
  have raised: "max_wait < py_int now \<longrightarrow>
      poll_loop e task max_wait interval now n tr =
        Some (Inl (SunoClientError (PollTimedOut max_wait task)), now,
              tr @ [Checked (py_int now)])"
    by (simp add: poll_loop_timeout)
  have carried: "poll_loop e task max_wait interval now n tr =
      Some (Inl (SunoClientError (PollTimedOut limit handle)), T, tr') \<longrightarrow>
      limit = max_wait \<and> handle = task \<and> max_wait < py_int T \<and>
      (\<exists>pre. tr' = pre @ [Checked (py_int T)])"
  proof
    assume a: "poll_loop e task max_wait interval now n tr =
      Some (Inl (SunoClientError (PollTimedOut limit handle)), T, tr')"
    have "\<And>k. poll_body (snd (status_query e task k)) \<noteq>
        Raise (SunoClientError (PollTimedOut limit handle))"
      using poll_body_raises by blast
    with poll_loop_ends[OF a]
    show "limit = max_wait \<and> handle = task \<and> max_wait < py_int T \<and>
        (\<exists>pre. tr' = pre @ [Checked (py_int T)])"
      by auto
  qed
  show ?thesis
    using raised carried by (rule conjI)
qed

theorem timeout_error_carries_limit_and_handle_witness:
  "poll_loop (pending_env (steady 0)) (JStr ''abc123'') 30 15 45 3 [] =
     Some (Inl (SunoClientError (PollTimedOut 30 (JStr ''abc123''))), 45, [Checked 45]) \<and>
   (30::int) < py_int 45"
proof -
  have "(30::int) < py_int 45" by (simp add: py_int_def)
  then show ?thesis
    using timeout_error_carries_limit_and_handle
      [where e = "pending_env (steady 0)" and task = "JStr ''abc123''" and max_wait = 30
         and interval = 15 and now = 45 and n = 3 and tr = "[]"
         and limit = 30 and handle = "JStr ''abc123''" and T = 45 and tr' = "[Checked 45]"]
    by (simp add: py_int_def)
qed

text \<open>
  Claim C8 as stated fails: two calls time out at different elapsed times, 45 and 32
  seconds, with one and the same error.
\<close>

theorem timeout_error_without_elapsed_counterexample:
  "poll_suno_task (pending_env (steady 0)) (JStr ''abc123'') 30 15 =
     Some (Inl (SunoClientError (PollTimedOut 30 (JStr ''abc123''))), 45,
           [Checked 0, Queried (JStr ''abc123'') 1, Slept 15,
            Checked 15, Queried (JStr ''abc123'') 2, Slept 15,
            Checked 30, Queried (JStr ''abc123'') 3, Slept 15,
            Checked 45]) \<and>
   poll_suno_task (pending_env (steady 1)) (JStr ''abc123'') 30 15 =
     Some (Inl (SunoClientError (PollTimedOut 30 (JStr ''abc123''))), 32,
           [Checked 0, Queried (JStr ''abc123'') 1, Slept 15,
            Checked 16, Queried (JStr ''abc123'') 2, Slept 15,
            Checked 32])"
  by code_simp

section \<open>Transport failures while polling and at submission\<close>

text \<open>
  Claim C3. A status query that fails at the transport is not an error of the call: the
  loop sleeps one interval and starts the next pass, no exception of the HTTP library
  ever leaves the loop, and when every query fails the call ends with the timeout. A
  response with status 200 whose body does not parse ends the call with
  \<^verbatim>\<open>SunoClientError\<close> carrying the body text (the specification's \<^verbatim>\<open>ProtocolError\<close>). A
  transport failure at submission ends the submission and the whole call with the
  library's exception after the one request.
\<close>

theorem poll_transport_failure_is_retried:
  "(py_int now \<le> max_wait \<and> status_query e task (Suc n) = (d, Inl y) \<and> 0 \<le> interval \<longrightarrow>
      poll_loop e task max_wait interval now n tr =
      poll_loop e task max_wait interval (now + d + of_int interval) (Suc n)
        (tr @ [Checked (py_int now), Queried task (Suc n), Slept interval])) \<and>
   (poll_loop e task max_wait interval now n tr = Some (Inl x, T, tr') \<longrightarrow>
      (\<forall>z. x \<noteq> RequestException z)) \<and>
   ((\<forall>k. \<exists>z. snd (status_query e task k) = Inl z) \<and> 0 \<le> interval \<and> 0 < \<delta> \<and>
    (\<forall>k. \<delta> \<le> fst (status_query e task k) + of_int interval) \<longrightarrow>
      (\<exists>T pre. poll_loop e task max_wait interval now n tr =
         Some (Inl (SunoClientError (PollTimedOut max_wait task)), T, pre @ [Checked (py_int T)]) \<and>
         max_wait < py_int T)) \<and>
   (py_int now \<le> max_wait \<and> status_query e task (Suc n) = (d, Inr resp) \<and>
    status_code resp = 200 \<and> json_body resp = None \<longrightarrow>
      poll_loop e task max_wait interval now n tr =
      Some (Inl (SunoClientError (NotJson (resp_text resp))), now + d,
            tr @ [Checked (py_int now), Queried task (Suc n)])) \<and>
   (API_KEY e \<noteq> [] \<and> http_post e (create_request e p t g m) = Inl y \<longrightarrow>
      create_suno_task e p t g m =
        (Inl (RequestException y), [Posted (create_request e p t g m)]) \<and>
      generate_music_from_prompt_en e p t g m max_wait interval =
        Some (Inl (RequestException y), [Posted (create_request e p t g m)]))"
proof (intro conjI impI)
  assume a: "py_int now \<le> max_wait \<and> status_query e task (Suc n) = (d, Inl y) \<and> 0 \<le> interval"
  then have "poll_body (snd (status_query e task (Suc n))) = Sleep"
    by (simp add: poll_body_def)
  then show "poll_loop e task max_wait interval now n tr =
      poll_loop e task max_wait interval (now + d + of_int interval) (Suc n)
        (tr @ [Checked (py_int now), Queried task (Suc n), Slept interval])"
    using poll_loop_sleep[of max_wait now e task n interval tr] a by simp
next
  assume a: "poll_loop e task max_wait interval now n tr = Some (Inl x, T, tr')"
  show "\<forall>z. x \<noteq> RequestException z"
    using poll_loop_ends[OF a] poll_body_raises by fastforce
next
  assume a: "(\<forall>k. \<exists>z. snd (status_query e task k) = Inl z) \<and> 0 \<le> interval \<and> 0 < \<delta> \<and>
    (\<forall>k. \<delta> \<le> fst (status_query e task k) + of_int interval)"
  have "\<forall>k. poll_body (snd (status_query e task k)) = Sleep"
  proof
    fix k
    from a obtain z where "snd (status_query e task k) = Inl z" by blast
    then show "poll_body (snd (status_query e task k)) = Sleep"
      by (simp add: poll_body_def)
  qed
  then show "\<exists>T pre. poll_loop e task max_wait interval now n tr =
         Some (Inl (SunoClientError (PollTimedOut max_wait task)), T, pre @ [Checked (py_int T)]) \<and>
         max_wait < py_int T"
    using poll_loop_all_pending[of e task interval \<delta> max_wait now n tr] a by blast
next
  assume a: "py_int now \<le> max_wait \<and> status_query e task (Suc n) = (d, Inr resp) \<and>
    status_code resp = 200 \<and> json_body resp = None"
  then have "poll_body (snd (status_query e task (Suc n))) =
      Raise (SunoClientError (NotJson (resp_text resp)))"
    by (simp add: poll_body_def)
  then show "poll_loop e task max_wait interval now n tr =
      Some (Inl (SunoClientError (NotJson (resp_text resp))), now + d,
            tr @ [Checked (py_int now), Queried task (Suc n)])"
    using poll_loop_raise[of max_wait now e task n _ interval tr] a by simp
next
  assume a: "API_KEY e \<noteq> [] \<and> http_post e (create_request e p t g m) = Inl y"
  then show "create_suno_task e p t g m =
        (Inl (RequestException y), [Posted (create_request e p t g m)])"
    by (simp add: create_suno_task_transport)
next
  assume a: "API_KEY e \<noteq> [] \<and> http_post e (create_request e p t g m) = Inl y"
  then show "generate_music_from_prompt_en e p t g m max_wait interval =
        Some (Inl (RequestException y), [Posted (create_request e p t g m)])"
    by (simp add: create_suno_task_transport generate_create_failed)
qed


lemma flaky_env_fields:
  "API_KEY flaky_env = ''key''"
  "status_query flaky_env task n =
     (0, if n = 1 then Inl ConnectionError else Inr (clips_response scenario_clip))"
  by (simp_all add: flaky_env_def service_fields)

theorem poll_transport_failure_is_retried_witness:
  "poll_loop flaky_env (JStr ''abc123'') 30 15 0 0 [] =
     poll_loop flaky_env (JStr ''abc123'') 30 15 15 1
       [Checked 0, Queried (JStr ''abc123'') 1, Slept 15] \<and>
   poll_suno_task flaky_env (JStr ''abc123'') 30 15 =
     Some (Inr scenario_clip, 15,
           [Checked 0, Queried (JStr ''abc123'') 1, Slept 15,
            Checked 15, Queried (JStr ''abc123'') 2]) \<and>
   (\<forall>z. SunoClientError (PollTimedOut 30 (JStr ''abc123'')) \<noteq> RequestException z) \<and>
   (\<exists>T pre. poll_loop (constant_env (Inl ConnectionError)) (JStr ''abc123'') 30 15 0 0 [] =
      Some (Inl (SunoClientError (PollTimedOut 30 (JStr ''abc123''))), T,
            pre @ [Checked (py_int T)]) \<and> 30 < py_int T) \<and>
   poll_loop (constant_env (Inr (pending_response \<lparr> status_code := 200, resp_text := ''<html>'' \<rparr>)))
       (JStr ''abc123'') 30 15 0 0 [] =
     Some (Inl (SunoClientError (NotJson ''<html>'')), 1,
           [Checked 0, Queried (JStr ''abc123'') 1]) \<and>
   create_suno_task (submission_env (Inl ConnectionError)) ''calm piano'' ''T'' None False =
     (Inl (RequestException ConnectionError),
      [Posted (create_request (submission_env (Inl ConnectionError))
                 ''calm piano'' ''T'' None False)]) \<and>
   generate_music_from_prompt_en (submission_env (Inl ConnectionError))
       ''calm piano'' ''T'' None False 30 15 =
     Some (Inl (RequestException ConnectionError),
           [Posted (create_request (submission_env (Inl ConnectionError))
                      ''calm piano'' ''T'' None False)])"
proof -
  let ?dead = "constant_env (Inl ConnectionError)"
  let ?html = "pending_response \<lparr> status_code := 200, resp_text := ''<html>'' \<rparr>"
  let ?down = "submission_env (Inl ConnectionError)"
  note T = poll_transport_failure_is_retried
  have c: "py_int 0 \<le> 30" by (simp add: py_int_def)
  have 1: "poll_loop flaky_env (JStr ''abc123'') 30 15 0 0 [] =
     poll_loop flaky_env (JStr ''abc123'') 30 15 15 1
       [Checked 0, Queried (JStr ''abc123'') 1, Slept 15]"
    using T [where e = flaky_env and task = "JStr ''abc123''" and max_wait = 30 and interval = 15
               and now = 0 and n = 0 and tr = "[]" and d = 0 and y = ConnectionError] c
    by (simp add: flaky_env_fields py_int_def)
  have 2: "poll_suno_task flaky_env (JStr ''abc123'') 30 15 =
     Some (Inr scenario_clip, 15,
           [Checked 0, Queried (JStr ''abc123'') 1, Slept 15,
            Checked 15, Queried (JStr ''abc123'') 2])"
    by code_simp
  have run: "poll_loop ?dead (JStr ''abc123'') 30 15 0 0 [] =
     Some (Inl (SunoClientError (PollTimedOut 30 (JStr ''abc123''))), 32,
           [Checked 0, Queried (JStr ''abc123'') 1, Slept 15,
            Checked 16, Queried (JStr ''abc123'') 2, Slept 15, Checked 32])"
    by code_simp
  have 3: "\<forall>z. SunoClientError (PollTimedOut 30 (JStr ''abc123'')) \<noteq> RequestException z"
    using T [where e = ?dead and task = "JStr ''abc123''" and max_wait = 30 and interval = 15
               and now = 0 and n = 0 and tr = "[]"
               and x = "SunoClientError (PollTimedOut 30 (JStr ''abc123''))" and T = 32
               and tr' = "[Checked 0, Queried (JStr ''abc123'') 1, Slept 15,
                           Checked 16, Queried (JStr ''abc123'') 2, Slept 15, Checked 32]"] run
    by simp
  have 4: "\<exists>T pre. poll_loop ?dead (JStr ''abc123'') 30 15 0 0 [] =
      Some (Inl (SunoClientError (PollTimedOut 30 (JStr ''abc123''))), T,
            pre @ [Checked (py_int T)]) \<and> 30 < py_int T"
    using T [where e = ?dead and task = "JStr ''abc123''" and max_wait = 30 and interval = 15
               and now = 0 and n = 0 and tr = "[]" and \<delta> = 16]
    by (simp add: constant_env_fields)
  have 5: "poll_loop (constant_env (Inr ?html)) (JStr ''abc123'') 30 15 0 0 [] =
     Some (Inl (SunoClientError (NotJson ''<html>'')), 1,
           [Checked 0, Queried (JStr ''abc123'') 1])"
    using T [where e = "constant_env (Inr ?html)" and task = "JStr ''abc123''" and max_wait = 30
               and interval = 15 and now = 0 and n = 0 and tr = "[]" and d = 1 and resp = ?html] c
    by (simp add: constant_env_fields pending_response_def py_int_def)
  have 6: "create_suno_task ?down ''calm piano'' ''T'' None False =
     (Inl (RequestException ConnectionError),
      [Posted (create_request ?down ''calm piano'' ''T'' None False)]) \<and>
   generate_music_from_prompt_en ?down ''calm piano'' ''T'' None False 30 15 =
     Some (Inl (RequestException ConnectionError),
           [Posted (create_request ?down ''calm piano'' ''T'' None False)])"
    using T [where e = ?down and p = "''calm piano''" and t = "''T''" and g = None and m = False
               and y = ConnectionError and max_wait = 30 and interval = 15]
    by (simp add: submission_env_fields)
  show ?thesis
    using 1 2 3 4 5 6 by blast
qed

section \<open>The slug\<close>

lemma spec_collapse_in_run:
  "spec_collapse True cs = spec_collapse False (dropWhile (\<lambda>d. \<not> keep_char d) cs)"
  by (induction cs) simp_all

lemma re_sub_runs_spec: "re_sub_runs s = spec_collapse False s"
  by (induction s rule: re_sub_runs.induct) (simp_all add: spec_collapse_in_run)

lemma spec_collapse_front:
  "dropWhile (\<lambda>c. c = CHR ''_'') (spec_collapse b s) =
   dropWhile (\<lambda>c. c = CHR ''_'') (spec_collapse False (dropWhile (\<lambda>d. \<not> keep_char d) s))"
proof (induction s arbitrary: b)
  case Nil
  show ?case by simp
next
  case (Cons c cs)
  show ?case
  proof (cases "keep_char c")
    case True
    then show ?thesis by simp
  next
    case False
    then have "dropWhile (\<lambda>c. c = CHR ''_'') (spec_collapse b (c # cs)) =
        dropWhile (\<lambda>c. c = CHR ''_'') (spec_collapse True cs)"
      by simp
    also have "\<dots> = dropWhile (\<lambda>c. c = CHR ''_'')
        (spec_collapse False (dropWhile (\<lambda>d. \<not> keep_char d) cs))"
      by (rule Cons.IH)
    finally show ?thesis using False by simp
  qed
qed

lemma spec_collapse_append:
  "spec_collapse b (xs @ ys) =
   spec_collapse b xs @ spec_collapse (if xs = [] then b else \<not> keep_char (last xs)) ys"
  by (induction xs arbitrary: b) auto

lemma spec_collapse_head:
  "spec_collapse True cs =
     (if cs \<noteq> [] \<and> \<not> keep_char (hd cs) then tl (spec_collapse False cs)
      else spec_collapse False cs)"
  by (cases cs) auto

lemma spec_collapse_rev: "rev (spec_collapse False s) = spec_collapse False (rev s)"
proof (induction s)
  case Nil
  show ?case by simp
next
  case (Cons c cs)
  show ?case
  proof (cases "keep_char c")
    case True
    then show ?thesis
      using Cons.IH by (simp add: spec_collapse_append)
  next
    case False
    show ?thesis
    proof (cases "cs \<noteq> [] \<and> \<not> keep_char (hd cs)")
      case True
      then obtain d ds where cs: "cs = d # ds" and d: "\<not> keep_char d"
        by (cases cs) auto
      have "spec_collapse False cs = CHR ''_'' # spec_collapse True cs"
        using cs d by simp
      then show ?thesis
        using False True Cons.IH by (simp add: spec_collapse_append last_rev)
    next
      case no_run: False
      then have "spec_collapse True cs = spec_collapse False cs"
        by (auto simp: spec_collapse_head)
      then show ?thesis
        using False no_run Cons.IH by (auto simp: spec_collapse_append last_rev)
    qed
  qed
qed

lemma trim_commute:
  "dropWhile P (rev (dropWhile P (rev s))) = rev (dropWhile P (rev (dropWhile P s)))"
proof (cases "\<forall>x\<in>set s. P x")
  case True
  have a: "dropWhile P s = []" using True by simp
  have b: "dropWhile P (rev s) = []" using True by simp
  show ?thesis unfolding a b by simp
next
  case False
  define s1 where "s1 = takeWhile P s"
  define s2 where "s2 = dropWhile P s"
  have s: "s = s1 @ s2" by (simp add: s1_def s2_def)
  have s1: "\<And>x. x \<in> set s1 \<Longrightarrow> P x"
    unfolding s1_def by (rule set_takeWhileD[THEN conjunct2])
  have ne: "s2 \<noteq> []" using False by (simp add: s2_def)
  have h: "\<not> P (hd s2)" using ne unfolding s2_def by (rule hd_dropWhile)
  have in2: "hd s2 \<in> set (rev s2)" using ne by simp
  have "dropWhile P (rev s) = dropWhile P (rev s2) @ rev s1"
    unfolding s using in2 h by (simp add: dropWhile_append1)
  then have "rev (dropWhile P (rev s)) = s1 @ rev (dropWhile P (rev s2))"
    by simp
  then have "dropWhile P (rev (dropWhile P (rev s))) = dropWhile P (rev (dropWhile P (rev s2)))"
    using s1 by (simp add: dropWhile_append2)
  moreover have "dropWhile P (rev s2) \<noteq> []"
    using in2 h by auto
  then have "hd (rev (dropWhile P (rev s2))) = hd s2"
    by (metis dropWhile_eq_Nil_conv hd_rev last_appendR last_rev ne rev_rev_ident
          takeWhile_dropWhile_id)
  then have "dropWhile P (rev (dropWhile P (rev s2))) = rev (dropWhile P (rev s2))"
    using h \<open>dropWhile P (rev s2) \<noteq> []\<close> by (simp add: dropWhile_eq_self_iff)
  ultimately show ?thesis by (simp add: s2_def)
qed


lemma strip_chars_rev: "strip_chars P (rev z) = rev (strip_chars P z)"
  by (simp add: strip_chars_def trim_commute[of P z])

lemma space_not_kept: "is_space c \<Longrightarrow> \<not> keep_char c"
  by (auto simp: is_space_def keep_char_def word_char_def Let_def)

lemma dropWhile_space_first:
  "dropWhile (\<lambda>d. \<not> keep_char d) (dropWhile is_space s) = dropWhile (\<lambda>d. \<not> keep_char d) s"
  by (induction s) (auto simp: space_not_kept)

lemma spec_trim_left:
  "strip_chars (\<lambda>c. c = CHR ''_'') (spec_collapse False (dropWhile is_space s)) =
   strip_chars (\<lambda>c. c = CHR ''_'') (spec_collapse False s)"
proof -
  have "dropWhile (\<lambda>c. c = CHR ''_'') (spec_collapse False (dropWhile is_space s)) =
      dropWhile (\<lambda>c. c = CHR ''_'') (spec_collapse False s)"
    using spec_collapse_front[of False "dropWhile is_space s"] spec_collapse_front[of False s]
    by (simp add: dropWhile_space_first)
  then show ?thesis by (simp add: strip_chars_def)
qed

lemma spec_trim_right:
  "strip_chars (\<lambda>c. c = CHR ''_'') (spec_collapse False (rev (dropWhile is_space (rev s)))) =
   strip_chars (\<lambda>c. c = CHR ''_'') (spec_collapse False s)"
proof -
  have "strip_chars (\<lambda>c. c = CHR ''_'') (spec_collapse False (rev (dropWhile is_space (rev s)))) =
      rev (strip_chars (\<lambda>c. c = CHR ''_'') (spec_collapse False (dropWhile is_space (rev s))))"
    by (simp add: spec_collapse_rev[symmetric] strip_chars_rev)
  also have "\<dots> = rev (strip_chars (\<lambda>c. c = CHR ''_'') (spec_collapse False (rev s)))"
    by (simp add: spec_trim_left)
  also have "\<dots> = strip_chars (\<lambda>c. c = CHR ''_'') (spec_collapse False s)"
    by (simp add: spec_collapse_rev[symmetric] strip_chars_rev)
  finally show ?thesis .
qed

lemma spec_trim_spaces:
  "strip_chars (\<lambda>c. c = CHR ''_'') (spec_collapse False (strip_chars is_space s)) =
   strip_chars (\<lambda>c. c = CHR ''_'') (spec_collapse False s)"
  using spec_trim_right[of "dropWhile is_space s"] spec_trim_left[of s]
  by (simp add: strip_chars_def)

lemma slugify_refines_spec: "slugify title = spec_slug title"
proof (cases "strip_chars is_space title = []")
  case True
  have "strip_chars (\<lambda>c. c = CHR ''_'') (spec_collapse False title) =
      strip_chars (\<lambda>c. c = CHR ''_'') (spec_collapse False [])"
    using spec_trim_spaces[of title] unfolding True by simp
  also have "\<dots> = []"
    by (simp add: strip_chars_def)
  finally show ?thesis
    using True by (simp add: slugify_def spec_slug_def)
next
  case False
  then show ?thesis
    by (simp add: slugify_def spec_slug_def Let_def re_sub_runs_spec spec_trim_spaces)
qed

lemma spec_collapse_kept: "c \<in> set (spec_collapse b s) \<Longrightarrow> keep_char c"
  by (induction s arbitrary: b) (auto simp: keep_char_def word_char_def split: if_splits)

lemma strip_chars_subset: "x \<in> set (strip_chars P s) \<Longrightarrow> x \<in> set s"
  unfolding strip_chars_def by (metis set_dropWhileD set_rev)

lemma slugify_kept: "c \<in> set (slugify title) \<Longrightarrow> keep_char c"
proof -
  assume c: "c \<in> set (slugify title)"
  show ?thesis
  proof (cases "strip_chars (\<lambda>c. c = CHR ''_'') (spec_collapse False title) = []")
    case True
    then have "slugify title = ''hakimi_track''"
      by (simp add: slugify_refines_spec spec_slug_def)
    with c show ?thesis
      by (auto simp: keep_char_def word_char_def)
  next
    case False
    then have "slugify title = strip_chars (\<lambda>c. c = CHR ''_'') (spec_collapse False title)"
      by (simp add: slugify_refines_spec spec_slug_def)
    with c have "c \<in> set (spec_collapse False title)"
      by (simp add: strip_chars_subset)
    then show ?thesis
      by (rule spec_collapse_kept)
  qed
qed

lemma slugify_nonempty: "slugify title \<noteq> []"
  by (simp add: slugify_def Let_def)

lemma spec_collapse_only_runs:
  "\<forall>c\<in>set s. \<not> keep_char c \<Longrightarrow> \<forall>c\<in>set (spec_collapse b s). c = CHR ''_''"
  by (induction s arbitrary: b) auto

lemma slugify_fallback:
  assumes "\<forall>c\<in>set title. \<not> keep_char c"
  shows "slugify title = ''hakimi_track''"
proof -
  have "\<forall>c\<in>set (spec_collapse False title). c = CHR ''_''"
    using assms by (rule spec_collapse_only_runs)
  then have d: "dropWhile (\<lambda>c. c = CHR ''_'') (spec_collapse False title) = []"
    by simp
  show ?thesis
    unfolding slugify_refines_spec spec_slug_def strip_chars_def d by simp
qed

lemma strip_chars_ends:
  assumes "strip_chars P s \<noteq> []"
  shows "\<not> P (hd (strip_chars P s)) \<and> \<not> P (last (strip_chars P s))"
proof -
  have l: "strip_chars P s = dropWhile P (rev (dropWhile P (rev s)))"
    by (simp add: strip_chars_def trim_commute[of P s])
  have "\<not> P (hd (strip_chars P s))"
    using assms unfolding l by (rule hd_dropWhile)
  moreover have "dropWhile P (rev (dropWhile P s)) \<noteq> []"
    using assms by (simp add: strip_chars_def)
  then have "\<not> P (hd (dropWhile P (rev (dropWhile P s))))"
    by (rule hd_dropWhile)
  then have "\<not> P (last (strip_chars P s))"
    using \<open>dropWhile P (rev (dropWhile P s)) \<noteq> []\<close>
    by (simp add: strip_chars_def last_rev)
  ultimately show ?thesis by simp
qed

lemma slugify_trimmed:
  "hd (slugify title) \<noteq> CHR ''_'' \<and> last (slugify title) \<noteq> CHR ''_''"
proof (cases "strip_chars (\<lambda>c. c = CHR ''_'') (spec_collapse False title) = []")
  case True
  then have "slugify title = ''hakimi_track''"
    by (simp add: slugify_refines_spec spec_slug_def)
  then show ?thesis by simp
next
  case False
  then have "slugify title = strip_chars (\<lambda>c. c = CHR ''_'') (spec_collapse False title)"
    by (simp add: slugify_refines_spec spec_slug_def)
  then show ?thesis
    using strip_chars_ends[OF False] by simp
qed

lemma rsplit_dot_head_mp3:
  assumes "CHR ''.'' \<notin> set s"
  shows "rsplit_dot_head (s @ ''.mp3'') = s"
proof -
  have "dropWhile (\<lambda>c. c \<noteq> CHR ''.'') (rev (s @ ''.mp3'')) = CHR ''.'' # rev s"
    by simp
  then show ?thesis
    by (simp add: rsplit_dot_head_def)
qed

lemma cover_name_of_slug:
  "rsplit_dot_head (slugify title @ ''.mp3'') @ ''_cover.jpg'' = slugify title @ ''_cover.jpg''"
proof -
  have "\<not> keep_char CHR ''.''"
    by (simp add: keep_char_def word_char_def)
  then have "CHR ''.'' \<notin> set (slugify title)"
    using slugify_kept by blast
  then show ?thesis by (simp add: rsplit_dot_head_mp3)
qed


lemma download_audio_paths:
  "fst (download_audio e clip filename) = Inr r \<Longrightarrow>
   audio_path r = OUTPUT_DIR filename \<and>
   (cover_path r = None \<or>
    cover_path r = Some (OUTPUT_DIR (rsplit_dot_head filename @ ''_cover.jpg'')))"
  by (auto simp: download_audio_def download_cover_def Let_def
           split: sum.splits if_splits)

lemma generate_paths:
  assumes "generate_music_from_prompt_en e p title g m max_wait interval = Some (Inr r, evs)"
  shows "audio_path r = OUTPUT_DIR (slugify title @ ''.mp3'') \<and>
     (cover_path r = None \<or>
      cover_path r = Some (OUTPUT_DIR (slugify title @ ''_cover.jpg'')))"
proof -
  obtain sub posted where sub: "create_suno_task e p title g m = (sub, posted)"
    by (cases "create_suno_task e p title g m") auto
  show ?thesis
  proof (cases sub)
    case (Inl x)
    with sub assms show ?thesis
      by (simp add: generate_create_failed)
  next
    case (Inr task)
    show ?thesis
    proof (cases "poll_suno_task e task max_wait interval")
      case None
      with sub Inr assms show ?thesis
        by (simp add: generate_music_from_prompt_en_def Let_def)
    next
      case (Some y)
      obtain res T polled where y: "y = (res, T, polled)"
        by (cases y) auto
      show ?thesis
      proof (cases res)
        case (Inl x)
        with sub \<open>sub = Inr task\<close> Some y assms show ?thesis
          by (simp add: generate_poll_failed)
      next
        case clip: (Inr clip)
        have "fst (download_audio e clip (slugify title @ ''.mp3'')) = Inr r"
          using generate_after_poll[of e p title g m task posted max_wait interval clip T polled]
            sub Inr Some y clip assms
          by simp
        from download_audio_paths[OF this] show ?thesis
          by (simp add: cover_name_of_slug)
      qed
    qed
  qed
qed


text \<open>
  Claim C5. The file name is a function of the title alone. The slug is the title with
  every maximal run of characters outside alphanumerics, underscore and hyphen replaced
  by one underscore and with leading and trailing underscores trimmed; it is never
  empty, consists of allowed characters only and neither starts nor ends with an
  underscore. A title that is empty or has disallowed characters only gives the fallback
  \<^verbatim>\<open>hakimi_track\<close>. Whenever the entry point returns a result, the audio file is
  \<^verbatim>\<open>{slug}.mp3\<close> and the cover, if there is one, \<^verbatim>\<open>{slug}_cover.jpg\<close>, both under the
  output directory.
\<close>

theorem slug_and_file_names:
  "slugify title = spec_slug title \<and>
   slugify title \<noteq> [] \<and>
   (title = other \<longrightarrow> slugify title = slugify other) \<and>
   ((\<forall>c\<in>set title. \<not> keep_char c) \<longrightarrow> slugify title = ''hakimi_track'') \<and>
   (\<forall>c\<in>set (slugify title). keep_char c) \<and>
   hd (slugify title) \<noteq> CHR ''_'' \<and> last (slugify title) \<noteq> CHR ''_'' \<and>
   (generate_music_from_prompt_en e p title g m max_wait interval = Some (Inr r, evs) \<longrightarrow>
      audio_path r = OUTPUT_DIR (slugify title @ ''.mp3'') \<and>
      (cover_path r = None \<or>
       cover_path r = Some (OUTPUT_DIR (slugify title @ ''_cover.jpg''))))"
  using slugify_refines_spec[of title] slugify_nonempty[of title] slugify_fallback[of title]
    slugify_kept[of _ title] slugify_trimmed[of title]
    generate_paths[of e p title g m max_wait interval r evs]
  by blast


theorem slug_and_file_names_witness:
  "slugify '' My  Title! '' = ''My_Title'' \<and>
   spec_slug '' My  Title! '' = ''My_Title'' \<and>
   slugify ''__a-b__'' = ''a-b'' \<and>
   slugify '' ?!  ... '' = ''hakimi_track'' \<and>
   slugify [] = ''hakimi_track'' \<and>
   generate_music_from_prompt_en cover_env ''calm piano'' '' My  Title! '' None False 30 15 =
     Some (Inr \<lparr> audio_path = OUTPUT_DIR ''My_Title.mp3'',
                 cover_path = Some (OUTPUT_DIR ''My_Title_cover.jpg''),
                 song_title = JStr ''T'', song_tags = JNull, duration = JInt 30,
                 clip_id = JStr ''c1'' \<rparr>,
           [Posted (create_request cover_env ''calm piano'' '' My  Title! '' None False),
            Checked 0, Queried (JStr ''abc123'') 1,
            Fetched (JStr ''http://x/a.mp3''), Wrote (OUTPUT_DIR ''My_Title.mp3'') [],
            Fetched (JStr ''http://x/c.jpg''), Wrote (OUTPUT_DIR ''My_Title_cover.jpg'') []])"
proof -
  have a: "slugify '' My  Title! '' = ''My_Title''" by code_simp
  have b: "slugify ''__a-b__'' = ''a-b''" by code_simp
  have c: "\<forall>c\<in>set '' ?!  ... ''. \<not> keep_char c"
    by (simp add: keep_char_def word_char_def)
  have d: "\<forall>c\<in>set ([] :: string). \<not> keep_char c" by simp
  have run: "generate_music_from_prompt_en cover_env ''calm piano'' '' My  Title! '' None False 30 15 =
     Some (Inr \<lparr> audio_path = OUTPUT_DIR ''My_Title.mp3'',
                 cover_path = Some (OUTPUT_DIR ''My_Title_cover.jpg''),
                 song_title = JStr ''T'', song_tags = JNull, duration = JInt 30,
                 clip_id = JStr ''c1'' \<rparr>,
           [Posted (create_request cover_env ''calm piano'' '' My  Title! '' None False),
            Checked 0, Queried (JStr ''abc123'') 1,
            Fetched (JStr ''http://x/a.mp3''), Wrote (OUTPUT_DIR ''My_Title.mp3'') [],
            Fetched (JStr ''http://x/c.jpg''), Wrote (OUTPUT_DIR ''My_Title_cover.jpg'') []])"
    by code_simp
  have 1: "spec_slug '' My  Title! '' = ''My_Title''"
    using slug_and_file_names[of "'' My  Title! ''"] a by simp
  have 2: "slugify '' ?!  ... '' = ''hakimi_track''"
    using slug_and_file_names[of "'' ?!  ... ''"] c by blast
  have 3: "slugify [] = ''hakimi_track''"
    using slug_and_file_names[of "[]"] d by blast
  show ?thesis
    using a b 1 2 3 run by blast
qed

end
